theory Spec2Isabelle
  imports Complex_Main "HOL-Library.Log_Nat" "HOL-Library.Multiset"
begin

section \<open>The pricing and discount engine of productService.js\<close>

text \<open>
  A shallow embedding of the pricing logic of \<^verbatim>\<open>src/services/api/productService.js\<close>.

  Conventions of the embedding.
  \<^item> A JavaScript number is a \<open>jsnum\<close>: NaN, or a binary64 value given as the rational it
    denotes. Every arithmetic operation of the source rounds its exact result to the
    nearest binary64 value, ties to even (\<open>rnd\<close>), as IEEE 754 prescribes. Infinity and the
    sign of zero are not modelled: a result beyond the binary64 range stays a rational.
  \<^item> A field that may be \<^verbatim>\<open>undefined\<close> (or \<^verbatim>\<open>null\<close>) is an \<open>option\<close>; \<open>None\<close> is the
    missing value. Numeric fields hold numbers (NaN among them), string fields hold
    strings.
  \<^item> A date string is the \<^typ>\<open>int\<close> of milliseconds that \<^verbatim>\<open>new Date(s)\<close> yields; the
    clock (\<^verbatim>\<open>new Date()\<close>, \<^verbatim>\<open>Date.now()\<close>) is a parameter \<open>now\<close>.
  \<^item> \<^verbatim>\<open>this.products\<close> is a list passed in and returned; a thrown \<^verbatim>\<open>Error(msg)\<close> is
    \<open>Inl msg\<close>. The \<^verbatim>\<open>await this.delay(..)\<close> calls have no effect on the data.
  \<^item> The class declares \<^verbatim>\<open>bulkUpdatePrices\<close> twice; the later declaration (source line
    1184) replaces the earlier one on the prototype and is the one embedded.
\<close>

subsection \<open>Binary64 arithmetic\<close>

text \<open>The integer nearest to \<open>y\<close>, a tie going to the even one.\<close>

definition round_even :: "rat \<Rightarrow> int" where
  "round_even y =
    (let f = \<lfloor>y\<rfloor>; d = y - of_int f
     in if d < 1 / 2 then f else if 1 / 2 < d then f + 1 else if even f then f else f + 1)"

text \<open>The binary exponent of a positive \<open>a\<close>: \<open>2 powi expo a \<le> a < 2 powi (expo a + 1)\<close>.\<close>

definition expo :: "rat \<Rightarrow> int" where
  "expo a = (if 1 \<le> a then bitlen \<lfloor>a\<rfloor> - 1 else - bitlen (\<lceil>1 / a\<rceil> - 1))"

text \<open>
  The spacing of the binary64 values around a positive \<open>a\<close>: 53 significant bits, and
  the spacing \<open>2 powi - 1074\<close> of the subnormal values below \<open>2 powi - 1022\<close>.
\<close>

definition quantum :: "rat \<Rightarrow> rat" where
  "quantum a = 2 powi (max (expo a) (- 1022) - 52)"

definition rnd_pos :: "rat \<Rightarrow> rat" where
  "rnd_pos a = of_int (round_even (a / quantum a)) * quantum a"

text \<open>Rounding to the nearest binary64 value, ties to even.\<close>

definition rnd :: "rat \<Rightarrow> rat" where
  "rnd x = (if x = 0 then 0 else if 0 < x then rnd_pos x else - rnd_pos (- x))"

subsection \<open>JavaScript numbers and primitives\<close>

datatype jsnum = NaN | Num rat

text \<open>A decimal literal of the source, such as \<^verbatim>\<open>0.01\<close>: the binary64 value nearest to it.\<close>

definition lit :: "rat \<Rightarrow> jsnum" where
  "lit x = Num (rnd x)"

text \<open>The operators \<^verbatim>\<open>+\<close>, \<^verbatim>\<open>-\<close>, \<^verbatim>\<open>*\<close> and \<^verbatim>\<open>/\<close> on numbers.\<close>

fun js_add :: "jsnum \<Rightarrow> jsnum \<Rightarrow> jsnum" where
  "js_add (Num a) (Num b) = Num (rnd (a + b))"
| "js_add _ _ = NaN"

fun js_sub :: "jsnum \<Rightarrow> jsnum \<Rightarrow> jsnum" where
  "js_sub (Num a) (Num b) = Num (rnd (a - b))"
| "js_sub _ _ = NaN"

fun js_mul :: "jsnum \<Rightarrow> jsnum \<Rightarrow> jsnum" where
  "js_mul (Num a) (Num b) = Num (rnd (a * b))"
| "js_mul _ _ = NaN"

text \<open>
  No division of the embedded code has a zero divisor: the divisor is 100, or a purchase
  price that a guard has found truthy or positive. The quotient by zero, an Infinity or
  NaN in the source, is given as NaN.
\<close>

fun js_div :: "jsnum \<Rightarrow> jsnum \<Rightarrow> jsnum" where
  "js_div (Num a) (Num b) = (if b = 0 then NaN else Num (rnd (a / b)))"
| "js_div _ _ = NaN"

text \<open>The comparisons \<^verbatim>\<open><\<close>, \<^verbatim>\<open><=\<close>, \<^verbatim>\<open>>\<close>, \<^verbatim>\<open>>=\<close>: false when an operand is NaN.\<close>

fun js_lt :: "jsnum \<Rightarrow> jsnum \<Rightarrow> bool" where
  "js_lt (Num a) (Num b) = (a < b)"
| "js_lt _ _ = False"

fun js_le :: "jsnum \<Rightarrow> jsnum \<Rightarrow> bool" where
  "js_le (Num a) (Num b) = (a \<le> b)"
| "js_le _ _ = False"

definition js_gt :: "jsnum \<Rightarrow> jsnum \<Rightarrow> bool" where
  "js_gt a b = js_lt b a"

definition js_ge :: "jsnum \<Rightarrow> jsnum \<Rightarrow> bool" where
  "js_ge a b = js_le b a"

text \<open>\<^verbatim>\<open>a !== b\<close> on numbers: NaN differs from every number, itself included.\<close>

fun strict_neq :: "jsnum \<Rightarrow> jsnum \<Rightarrow> bool" where
  "strict_neq (Num a) (Num b) = (a \<noteq> b)"
| "strict_neq _ _ = True"

text \<open>\<^verbatim>\<open>Math.max\<close>, \<^verbatim>\<open>Math.min\<close> and \<^verbatim>\<open>Math.abs\<close>: NaN when an argument is NaN.\<close>

fun Math_max :: "jsnum \<Rightarrow> jsnum \<Rightarrow> jsnum" where
  "Math_max (Num a) (Num b) = Num (max a b)"
| "Math_max _ _ = NaN"

fun Math_min :: "jsnum \<Rightarrow> jsnum \<Rightarrow> jsnum" where
  "Math_min (Num a) (Num b) = Num (min a b)"
| "Math_min _ _ = NaN"

fun Math_abs :: "jsnum \<Rightarrow> jsnum" where
  "Math_abs (Num a) = Num \<bar>a\<bar>"
| "Math_abs NaN = NaN"

text \<open>
  \<^verbatim>\<open>Math.round(s)\<close>: the integer nearest to \<open>s\<close>, a tie going to the larger one. The result
  is exact: a binary64 value of magnitude \<open>2 powi 52\<close> or more is an integer already.
\<close>

definition round_half_up :: "rat \<Rightarrow> int" where
  "round_half_up s = \<lfloor>s + 1 / 2\<rfloor>"

fun Math_round :: "jsnum \<Rightarrow> jsnum" where
  "Math_round (Num s) = Num (of_int (round_half_up s))"
| "Math_round NaN = NaN"

text \<open>The product \<^verbatim>\<open>x * 100\<close> that every 2-decimal rounding of the source passes to Math.round.\<close>

definition scaled :: "jsnum \<Rightarrow> jsnum" where
  "scaled x = js_mul x (Num 100)"

text \<open>\<^verbatim>\<open>Math.round(x * 100) / 100\<close>.\<close>

definition round2 :: "jsnum \<Rightarrow> jsnum" where
  "round2 x = js_div (Math_round (scaled x)) (Num 100)"

text \<open>
  The number that \<^verbatim>\<open>x.toFixed(2)\<close> prints: the exact value of \<open>x\<close> rounded to 2 decimals,
  a tie going away from zero; \<open>None\<close> is the text \<^verbatim>\<open>NaN\<close>.
\<close>

fun toFixed2 :: "jsnum \<Rightarrow> rat option" where
  "toFixed2 (Num x) =
     Some (if 0 \<le> x then of_int \<lfloor>x * 100 + 1 / 2\<rfloor> / 100
           else - (of_int \<lfloor>- x * 100 + 1 / 2\<rfloor> / 100))"
| "toFixed2 NaN = None"

text \<open>Truthiness of a number: \<^verbatim>\<open>0\<close> and NaN are falsy.\<close>

fun truthy_num :: "jsnum \<Rightarrow> bool" where
  "truthy_num (Num x) = (x \<noteq> 0)"
| "truthy_num NaN = False"

text \<open>Truthiness of a number-or-undefined value: \<^verbatim>\<open>undefined\<close> is falsy too.\<close>

definition truthy :: "jsnum option \<Rightarrow> bool" where
  "truthy v = (case v of None \<Rightarrow> False | Some n \<Rightarrow> truthy_num n)"

text \<open>Truthiness of a string-or-undefined value: \<^verbatim>\<open>undefined\<close> and \<^verbatim>\<open>''\<close> are falsy.\<close>

definition truthy_str :: "string option \<Rightarrow> bool" where
  "truthy_str v = (case v of None \<Rightarrow> False | Some s \<Rightarrow> s \<noteq> [])"

text \<open>
  \<^verbatim>\<open>v || d\<close> for a number-or-undefined \<open>v\<close>. It is also \<^verbatim>\<open>parseFloat(v) || d\<close>:
  \<^verbatim>\<open>parseFloat\<close> of a number is that number and \<^verbatim>\<open>parseFloat(undefined)\<close> is NaN.
\<close>

definition num_or :: "jsnum option \<Rightarrow> jsnum \<Rightarrow> jsnum" where
  "num_or v d = (if truthy v then the v else d)"

text \<open>\<^verbatim>\<open>v > 0\<close> for a number-or-undefined \<open>v\<close>: false for \<^verbatim>\<open>undefined\<close>.\<close>

definition positive :: "jsnum option \<Rightarrow> bool" where
  "positive v = (case v of None \<Rightarrow> False | Some n \<Rightarrow> js_gt n (Num 0))"

text \<open>\<^verbatim>\<open>Array.prototype.findIndex\<close>; \<open>None\<close> is the source's \<^verbatim>\<open>-1\<close>.\<close>

fun findIndex :: "('a \<Rightarrow> bool) \<Rightarrow> 'a list \<Rightarrow> nat option" where
  "findIndex P [] = None"
| "findIndex P (x # xs) = (if P x then Some 0 else map_option Suc (findIndex P xs))"

subsection \<open>Data model\<close>

text \<open>An element of \<^verbatim>\<open>priceHistory\<close>, as \<^verbatim>\<open>update\<close> pushes it.\<close>

record entry =
  date :: int
  oldPrice :: jsnum
  newPrice :: jsnum
  user :: string
  reason :: string

text \<open>A product of \<^verbatim>\<open>this.products\<close>. The field \<open>pid\<close> is the source's \<^verbatim>\<open>id\<close>.\<close>

record product =
  pid :: int
  name :: string
  category :: string
  stock :: int
  price :: jsnum
  purchasePrice :: "jsnum option"
  previousPrice :: "jsnum option"
  discountType :: "string option"
  discountValue :: "jsnum option"
  discountStartDate :: "int option"
  discountEndDate :: "int option"
  discountPriority :: "int option"
  profitMargin :: "jsnum option"
  priceHistory :: "entry list option"
  lastUpdated :: "int option"

text \<open>The request of \<^verbatim>\<open>bulkUpdatePrices\<close> (\<^verbatim>\<open>updateData\<close>); each field \<open>ud_f\<close> is \<^verbatim>\<open>updateData.f\<close>.\<close>

record updateData =
  ud_strategy :: "string option"
  ud_value :: "jsnum option"
  ud_minPrice :: "jsnum option"
  ud_maxPrice :: "jsnum option"
  ud_category :: "string option"
  ud_applyToLowStock :: bool
  ud_stockThreshold :: "int option"
  ud_activeTab :: "string option"
  ud_categoryDiscount :: bool
  ud_discountType :: "string option"
  ud_discountValue :: "jsnum option"
  ud_discountStartDate :: "int option"
  ud_discountEndDate :: "int option"
  ud_conflictResolution :: "string option"

text \<open>The result of \<^verbatim>\<open>validateBulkPriceUpdate\<close>.\<close>

record validation =
  isValid :: bool
  error :: "string option"

subsection \<open>validateBulkPriceUpdate (source lines 243-265)\<close>

text \<open>
  The test \<^verbatim>\<open>isNaN(parseFloat(updateData.value))\<close> of line 259 is reached with a truthy
  \<^verbatim>\<open>value\<close> only; for a number it is false then, NaN being falsy.
\<close>

definition validateBulkPriceUpdate :: "updateData \<Rightarrow> validation" where
  "validateBulkPriceUpdate u =
    (if \<not> truthy_str (ud_strategy u) then
       \<lparr>isValid = False, error = Some ''Update strategy is required''\<rparr>
     else if ud_strategy u = Some ''range'' then
       (if \<not> truthy (ud_minPrice u) \<or> \<not> truthy (ud_maxPrice u) then
          \<lparr>isValid = False,
           error = Some ''Both minimum and maximum prices are required for range strategy''\<rparr>
        else if js_ge (the (ud_minPrice u)) (the (ud_maxPrice u)) then
          \<lparr>isValid = False, error = Some ''Minimum price must be less than maximum price''\<rparr>
        else \<lparr>isValid = True, error = None\<rparr>)
     else
       (if \<not> truthy (ud_value u) then
          \<lparr>isValid = False, error = Some ''Update value is required''\<rparr>
        else if ud_value u = Some NaN then
          \<lparr>isValid = False, error = Some ''Update value must be a valid number''\<rparr>
        else \<lparr>isValid = True, error = None\<rparr>))"

subsection \<open>update (source lines 83-142)\<close>

text \<open>
  The patch \<^verbatim>\<open>productData\<close> of \<^verbatim>\<open>update\<close>, with the keys its callers set; \<open>None\<close> is a key
  that is absent. Each field \<open>pd_f\<close> is \<^verbatim>\<open>productData.f\<close>. The callers pass the result of
  \<^verbatim>\<open>parseFloat\<close>, so a price of the patch can be NaN.
\<close>

record productData =
  pd_price :: "jsnum option"
  pd_purchasePrice :: "jsnum option"
  pd_stock :: "int option"

text \<open>The condition of source line 109: the patch carries a price other than the current one.\<close>

definition price_differs :: "productData \<Rightarrow> product \<Rightarrow> bool" where
  "price_differs pd currentProduct =
    (case pd_price pd of None \<Rightarrow> False | Some v \<Rightarrow> strict_neq v (price currentProduct))"

text \<open>
  Source lines 107-125: when the patch carries a price other than the current one, the
  source stores \<^verbatim>\<open>previousPrice\<close>, \<^verbatim>\<open>lastUpdated\<close> and the extended \<^verbatim>\<open>priceHistory\<close> on the
  patch, from where the spread of line 128 copies them onto the product.
\<close>

definition track_price_change :: "int \<Rightarrow> product \<Rightarrow> productData \<Rightarrow> product" where
  "track_price_change now currentProduct pd =
    (if price_differs pd currentProduct then
       currentProduct
         \<lparr>previousPrice := Some (price currentProduct),
          priceHistory :=
            Some ((case priceHistory currentProduct of None \<Rightarrow> [] | Some h \<Rightarrow> h) @
              [\<lparr>date = now, oldPrice = price currentProduct, newPrice = the (pd_price pd),
                user = ''Admin'', reason = ''Manual update''\<rparr>]),
          lastUpdated := Some now\<rparr>
     else currentProduct)"

text \<open>Source lines 128-132: \<^verbatim>\<open>{ ...this.products[index], ...productData, id: ... }\<close>.\<close>

definition merge_patch :: "product \<Rightarrow> productData \<Rightarrow> product" where
  "merge_patch p pd =
    p\<lparr>price := (case pd_price pd of None \<Rightarrow> price p | Some v \<Rightarrow> v),
      purchasePrice := (case pd_purchasePrice pd of None \<Rightarrow> purchasePrice p | Some c \<Rightarrow> Some c),
      stock := (case pd_stock pd of None \<Rightarrow> stock p | Some s \<Rightarrow> s)\<rparr>"

text \<open>The margin of source lines 136 and 297: \<^verbatim>\<open>((price - purchasePrice) / purchasePrice) * 100\<close>.\<close>

definition margin :: "jsnum \<Rightarrow> jsnum \<Rightarrow> jsnum" where
  "margin pr pp = js_mul (js_div (js_sub pr pp) pp) (Num 100)"

text \<open>Source lines 134-138: the margin is recomputed when both prices are truthy.\<close>

definition recompute_margin :: "product \<Rightarrow> product" where
  "recompute_margin p =
    (if truthy_num (price p) \<and> truthy (purchasePrice p) then
       p\<lparr>profitMargin := Some (round2 (margin (price p) (the (purchasePrice p))))\<rparr>
     else p)"

definition update ::
  "int \<Rightarrow> int \<Rightarrow> productData \<Rightarrow> product list \<Rightarrow> string + (product \<times> product list)" where
  "update now i pd products =
    (case findIndex (\<lambda>p. pid p = i) products of
       None \<Rightarrow> Inl ''Product not found''
     | Some index \<Rightarrow>
         if (case pd_price pd of None \<Rightarrow> False | Some v \<Rightarrow> js_le v (Num 0)) then
           Inl ''Price must be greater than 0''
         else if (case pd_stock pd of None \<Rightarrow> False | Some s \<Rightarrow> s < 0) then
           Inl ''Stock cannot be negative''
         else if (case pd_price pd of None \<Rightarrow> False
                  | Some v \<Rightarrow> (case pd_purchasePrice pd of None \<Rightarrow> False | Some c \<Rightarrow> js_le v c)) then
           Inl ''Selling price must be greater than purchase price''
         else
           (let currentProduct = products ! index;
                updatedProduct =
                  recompute_margin (merge_patch (track_price_change now currentProduct pd) pd)
            in Inr (updatedProduct, products[index := updatedProduct])))"

subsection \<open>calculateProfitMetrics (source lines 272-305)\<close>

record metrics =
  minSellingPrice_m :: jsnum
  profitMargin_m :: jsnum
  finalPrice_m :: jsnum

text \<open>\<^verbatim>\<open>parseFloat(productData.price) || 0\<close> and its two companions.\<close>

definition price_or_0 :: "product \<Rightarrow> jsnum" where
  "price_or_0 p = num_or (Some (price p)) (Num 0)"

definition purchasePrice_or_0 :: "product \<Rightarrow> jsnum" where
  "purchasePrice_or_0 p = num_or (purchasePrice p) (Num 0)"

definition discountValue_or_0 :: "product \<Rightarrow> jsnum" where
  "discountValue_or_0 p = num_or (discountValue p) (Num 0)"

text \<open>The three values of the source before they are rounded.\<close>

definition finalPrice_raw :: "product \<Rightarrow> jsnum" where
  "finalPrice_raw p =
    (let pr = price_or_0 p; dv = discountValue_or_0 p
     in Math_max (Num 0)
          (if js_gt dv (Num 0) then
             (if discountType p = Some ''Percentage''
              then js_sub pr (js_div (js_mul pr dv) (Num 100)) else js_sub pr dv)
           else pr))"

definition minSellingPrice_raw :: "product \<Rightarrow> jsnum" where
  "minSellingPrice_raw p =
    (let pp = purchasePrice_or_0 p
     in if js_gt pp (Num 0) then js_mul pp (lit (11 / 10)) else Num 0)"

definition profitMargin_raw :: "product \<Rightarrow> jsnum" where
  "profitMargin_raw p =
    (let pp = purchasePrice_or_0 p; fp = finalPrice_raw p
     in if js_gt pp (Num 0) \<and> js_gt fp (Num 0) then margin fp pp else Num 0)"

definition calculateProfitMetrics :: "product \<Rightarrow> metrics" where
  "calculateProfitMetrics p =
    \<lparr>minSellingPrice_m = round2 (minSellingPrice_raw p),
     profitMargin_m = round2 (profitMargin_raw p),
     finalPrice_m = round2 (finalPrice_raw p)\<rparr>"

subsection \<open>getPriceHistory (source lines 1374-1410)\<close>




subsection \<open>bulkUpdatePrices (source lines 1184-1313)\<close>

text \<open>Source lines 1214-1230: the strategy switch, entered on the pricing tab only.\<close>

definition strategy_price :: "updateData \<Rightarrow> jsnum \<Rightarrow> jsnum" where
  "strategy_price u originalPrice =
    (if ud_activeTab u = Some ''pricing'' then
       (if ud_strategy u = Some ''percentage'' then
          js_mul originalPrice (js_add (Num 1) (js_div (num_or (ud_value u) (Num 0)) (Num 100)))
        else if ud_strategy u = Some ''fixed'' then
          js_add originalPrice (num_or (ud_value u) (Num 0))
        else if ud_strategy u = Some ''range'' then
          Math_min (Math_max originalPrice (num_or (ud_minPrice u) (Num 0)))
                   (num_or (ud_maxPrice u) originalPrice)
        else originalPrice)
     else originalPrice)"

text \<open>The guard of source lines 1233 and 1293.\<close>

definition discounts_tab :: "updateData \<Rightarrow> bool" where
  "discounts_tab u = (ud_activeTab u = Some ''discounts'' \<and> ud_categoryDiscount u)"

text \<open>\<^verbatim>\<open>product.discountValue > 0\<close> (source line 1237).\<close>

definition has_discount :: "product \<Rightarrow> bool" where
  "has_discount p = positive (discountValue p)"

text \<open>\<^verbatim>\<open>parseFloat(updateData.discountValue) || 0\<close> (source lines 1234 and 1295).\<close>

definition new_discountValue :: "updateData \<Rightarrow> jsnum" where
  "new_discountValue u = num_or (ud_discountValue u) (Num 0)"

text \<open>Source lines 1249-1252: the two amounts that the merge policy compares.\<close>

definition newDiscountAmount :: "updateData \<Rightarrow> product \<Rightarrow> jsnum" where
  "newDiscountAmount u p = js_div (js_mul (price p) (new_discountValue u)) (Num 100)"

definition existingDiscountAmount :: "product \<Rightarrow> jsnum" where
  "existingDiscountAmount p =
    (if discountType p = Some ''Percentage''
     then js_div (js_mul (price p) (the (discountValue p))) (Num 100)
     else the (discountValue p))"

text \<open>Source lines 1211 and 1237-1259: the value of \<^verbatim>\<open>shouldUpdate\<close> after the switch.\<close>

definition shouldUpdate :: "updateData \<Rightarrow> product \<Rightarrow> bool" where
  "shouldUpdate u p =
    (if discounts_tab u \<and> has_discount p then
       (if ud_conflictResolution u = Some ''skip'' then False
        else if ud_conflictResolution u = Some ''override'' then True
        else if ud_conflictResolution u = Some ''merge'' then
          (if ud_discountType u = Some ''percentage'' then
             \<not> js_le (newDiscountAmount u p) (existingDiscountAmount p)
           else True)
        else True)
     else True)"

text \<open>Source line 1241: the product is pushed on \<^verbatim>\<open>conflictProducts\<close>.\<close>

definition is_conflict :: "updateData \<Rightarrow> product \<Rightarrow> bool" where
  "is_conflict u p =
    (discounts_tab u \<and> has_discount p \<and> ud_conflictResolution u = Some ''skip'')"

text \<open>Source lines 1261-1268: the new discount applied to the base price.\<close>

definition discount_price :: "updateData \<Rightarrow> product \<Rightarrow> jsnum \<Rightarrow> jsnum" where
  "discount_price u p np =
    (let dv = new_discountValue u in
     if discounts_tab u \<and> shouldUpdate u p \<and> js_gt dv (Num 0) then
       (if ud_discountType u = Some ''percentage''
        then js_mul (price p) (js_sub (Num 1) (js_div dv (Num 100)))
        else js_sub (price p) dv)
     else np)"

text \<open>Source lines 1271-1280: the request's guards, then the range 1 to 100000.\<close>

definition price_guards :: "updateData \<Rightarrow> jsnum \<Rightarrow> jsnum" where
  "price_guards u np =
    (let n1 = (if truthy (ud_minPrice u) \<and> js_lt np (the (ud_minPrice u))
               then the (ud_minPrice u) else np);
         n2 = (if truthy (ud_maxPrice u) \<and> js_gt n1 (the (ud_maxPrice u))
               then the (ud_maxPrice u) else n1)
     in Math_max (Num 1) (Math_min n2 (Num 100000)))"

text \<open>The value of \<^verbatim>\<open>newPrice\<close> at source line 1283.\<close>

definition computed_price :: "updateData \<Rightarrow> product \<Rightarrow> jsnum" where
  "computed_price u p = price_guards u (discount_price u p (strategy_price u (price p)))"

text \<open>\<^verbatim>\<open>Math.abs(newPrice - originalPrice) > 0.01\<close>.\<close>

definition price_changed :: "jsnum \<Rightarrow> jsnum \<Rightarrow> bool" where
  "price_changed np originalPrice = js_gt (Math_abs (js_sub np originalPrice)) (lit (1 / 100))"

text \<open>The condition of source line 1283.\<close>

definition commits :: "updateData \<Rightarrow> product \<Rightarrow> bool" where
  "commits u p = (shouldUpdate u p \<and> price_changed (computed_price u p) (price p))"

text \<open>Source lines 1286-1298: the record written back, built from the stored record \<open>q\<close>.\<close>

definition updatedProduct :: "updateData \<Rightarrow> product \<Rightarrow> product \<Rightarrow> product" where
  "updatedProduct u p q =
    (let q1 = q\<lparr>price := round2 (computed_price u p), previousPrice := Some (price p)\<rparr> in
     if discounts_tab u then
       q1\<lparr>discountType := ud_discountType u,
          discountValue := Some (new_discountValue u),
          discountStartDate := ud_discountStartDate u,
          discountEndDate := ud_discountEndDate u\<rparr>
     else q1)"

text \<open>
  One turn of the loop of source line 1208. The state is \<^verbatim>\<open>this.products\<close>,
  \<^verbatim>\<open>updatedCount\<close> and \<^verbatim>\<open>conflictProducts\<close>; \<open>p\<close> is the element of the filtered copy.
\<close>

definition bulk_step ::
  "updateData \<Rightarrow> product list \<times> nat \<times> product list \<Rightarrow> product \<Rightarrow>
   product list \<times> nat \<times> product list" where
  "bulk_step u st p =
    (case st of (products, updatedCount, conflictProducts) \<Rightarrow>
      (let conflictProducts' = (if is_conflict u p then conflictProducts @ [p] else conflictProducts)
       in if commits u p then
            (case findIndex (\<lambda>q. pid q = pid p) products of
               None \<Rightarrow> (products, updatedCount, conflictProducts')
             | Some productIndex \<Rightarrow>
                 (products[productIndex := updatedProduct u p (products ! productIndex)],
                  updatedCount + 1, conflictProducts'))
          else (products, updatedCount, conflictProducts')))"

text \<open>Source lines 1192-1202: the two filters.\<close>

definition filteredProducts :: "updateData \<Rightarrow> product list \<Rightarrow> product list" where
  "filteredProducts u products =
    (let f1 = (if ud_category u \<noteq> Some ''all''
               then filter (\<lambda>p. Some (category p) = ud_category u) products else products)
     in if ud_applyToLowStock u
        then filter (\<lambda>p. case ud_stockThreshold u of None \<Rightarrow> False | Some t \<Rightarrow> stock p \<le> t) f1
        else f1)"

record bulk_result =
  updatedCount :: nat
  totalFiltered :: nat
  conflictCount :: nat
  strategy :: string
  conflictProducts :: "product list"

definition bulkUpdatePrices ::
  "updateData \<Rightarrow> product list \<Rightarrow> string + (bulk_result \<times> product list)" where
  "bulkUpdatePrices u products =
    (let validation = validateBulkPriceUpdate u in
     if \<not> isValid validation then Inl (the (error validation))
     else
       (let fs = filteredProducts u products in
        case foldl (bulk_step u) (products, 0, []) fs of
          (products', n, cs) \<Rightarrow>
            Inr (\<lparr>updatedCount = n, totalFiltered = length fs, conflictCount = length cs,
                  strategy = (if truthy_str (ud_strategy u) then the (ud_strategy u)
                              else ''category_discount''),
                  conflictProducts = take 5 cs\<rparr>,
                 products')))"

subsection \<open>validateOfferConflicts (source lines 1055-1181)\<close>

datatype conflict_type = overlapping_dates | excessive_discount | invalid_discount | low_profit_margin

text \<open>
  A conflict record. \<open>c_details\<close> keeps the numbers that the source formats into the
  message, not the message text: the two dates of an overlapping window, or the figure
  that \<^verbatim>\<open>profitMargin.toFixed(2)\<close> prints.
\<close>

record conflict =
  ctype :: conflict_type
  c_productId :: "int option"
  c_productName :: "string option"
  c_details :: "rat list"

datatype warning = VeryLowFinalPrice | SamePriority nat string

record offer_result =
  o_isValid :: bool
  o_conflicts :: "conflict list"
  o_warnings :: "warning list"
  o_error :: "string option"

text \<open>\<^verbatim>\<open>p.id !== excludeId\<close>, where \<^verbatim>\<open>excludeId\<close> is an id or \<^verbatim>\<open>null\<close>.\<close>

definition not_excluded :: "product \<Rightarrow> int option \<Rightarrow> bool" where
  "not_excluded p excludeId = (Some (pid p) \<noteq> excludeId)"

text \<open>Source lines 1076-1081: the filter; an element of \<^verbatim>\<open>allProducts\<close> may be \<^verbatim>\<open>null\<close>.\<close>

definition categoryProducts :: "product \<Rightarrow> product option list \<Rightarrow> int option \<Rightarrow> product list" where
  "categoryProducts pd allProducts excludeId =
    map the (filter (\<lambda>po. case po of None \<Rightarrow> False
       | Some p \<Rightarrow> category p = category pd \<and> not_excluded p excludeId \<and> has_discount p \<and>
           discountStartDate p \<noteq> None \<and> discountEndDate p \<noteq> None) allProducts)"

text \<open>Source lines 1083-1098: one conflict for each product whose window overlaps.\<close>

definition overlap_conflicts :: "product \<Rightarrow> product list \<Rightarrow> conflict list" where
  "overlap_conflicts pd ps =
    map (\<lambda>p. \<lparr>ctype = overlapping_dates, c_productId = Some (pid p),
               c_productName = Some (name p),
               c_details = [of_int (the (discountStartDate p)),
                            of_int (the (discountEndDate p))]\<rparr>)
      (filter (\<lambda>p. the (discountStartDate pd) \<le> the (discountEndDate p) \<and>
                   the (discountEndDate pd) \<ge> the (discountStartDate p)) ps)"

text \<open>\<^verbatim>\<open>productData.discountType || 'Fixed Amount'\<close>.\<close>

definition offer_discountType :: "product \<Rightarrow> string" where
  "offer_discountType pd =
    (if truthy_str (discountType pd) then the (discountType pd) else ''Fixed Amount'')"

text \<open>\<^verbatim>\<open>finalPrice\<close> of source lines 1103-1108 and 1147-1152.\<close>

definition offer_finalPrice :: "product \<Rightarrow> jsnum" where
  "offer_finalPrice pd =
    (let pr = price_or_0 pd; dv = discountValue_or_0 pd in
     if offer_discountType pd = ''Percentage''
     then js_sub pr (js_div (js_mul pr dv) (Num 100)) else js_sub pr dv)"

text \<open>\<^verbatim>\<open>parseInt(productData.discountPriority) || 1\<close>.\<close>

definition offer_priority :: "product \<Rightarrow> int" where
  "offer_priority pd = (case discountPriority pd of None \<Rightarrow> 1 | Some k \<Rightarrow> if k = 0 then 1 else k)"

definition samePriorityProducts :: "product \<Rightarrow> product option list \<Rightarrow> int option \<Rightarrow> product list" where
  "samePriorityProducts pd allProducts excludeId =
    map the (filter (\<lambda>po. case po of None \<Rightarrow> False
       | Some p \<Rightarrow> category p = category pd \<and> not_excluded p excludeId \<and>
           discountPriority p = Some (offer_priority pd) \<and> has_discount p) allProducts)"

definition validateOfferConflicts ::
  "product option \<Rightarrow> product option list \<Rightarrow> int option \<Rightarrow> offer_result" where
  "validateOfferConflicts productData allProducts excludeId =
    (case productData of
       None \<Rightarrow> \<lparr>o_isValid = False, o_conflicts = [], o_warnings = [],
                 o_error = Some ''Invalid product data''\<rparr>
     | Some pd \<Rightarrow>
        (let pr = price_or_0 pd;
             dv = discountValue_or_0 pd;
             discounted = js_gt dv (Num 0);
             c1 = (if discounted \<and> discountStartDate pd \<noteq> None \<and> discountEndDate pd \<noteq> None
                   then overlap_conflicts pd (categoryProducts pd allProducts excludeId) else []);
             w1 = (if discounted \<and> js_lt (offer_finalPrice pd) (js_mul pr (lit (1 / 10)))
                   then [VeryLowFinalPrice] else []);
             c2 = (if discounted \<and> offer_discountType pd = ''Percentage'' \<and> js_gt dv (Num 90)
                   then [\<lparr>ctype = excessive_discount, c_productId = None, c_productName = None,
                           c_details = []\<rparr>] else []);
             c3 = (if discounted \<and> offer_discountType pd = ''Fixed Amount'' \<and> js_ge dv pr
                   then [\<lparr>ctype = invalid_discount, c_productId = None, c_productName = None,
                           c_details = []\<rparr>] else []);
             same = samePriorityProducts pd allProducts excludeId;
             w2 = (if length same > 0 then [SamePriority (length same) (category pd)] else []);
             pp = purchasePrice_or_0 pd;
             c4 = (if js_gt pp (Num 0) \<and> discounted then
                     (let profitMargin = margin (offer_finalPrice pd) pp in
                      if js_lt profitMargin (Num 5)
                      then [\<lparr>ctype = low_profit_margin, c_productId = None,
                              c_productName = None,
                              c_details =
                                (case toFixed2 profitMargin of None \<Rightarrow> [] | Some d \<Rightarrow> [d])\<rparr>]
                      else [])
                   else []);
             conflicts = c1 @ c2 @ c3 @ c4
         in \<lparr>o_isValid = (conflicts = []), o_conflicts = conflicts, o_warnings = w1 @ w2,
              o_error = (if conflicts = [] then None else Some ''Offer conflicts detected'')\<rparr>))"

text \<open>The result reports an overlapping_dates conflict.\<close>

definition reports_overlap :: "offer_result \<Rightarrow> bool" where
  "reports_overlap r = (filter (\<lambda>c. ctype c = overlapping_dates) (o_conflicts r) \<noteq> [])"

subsection \<open>bulkPartialUpdate (source lines 1413-1457)\<close>

text \<open>
  An entry of \<^verbatim>\<open>updates\<close> that is an object. \<open>u_productId\<close> is an integer, or \<open>None\<close> for a
  key that is \<^verbatim>\<open>undefined\<close>; \<open>basePrice\<close> and \<open>costPrice\<close> are the values of
  \<^verbatim>\<open>parseFloat(basePrice)\<close> and \<^verbatim>\<open>parseFloat(costPrice)\<close>, NaN for a text that is no number,
  and \<open>None\<close> for a key that is \<^verbatim>\<open>undefined\<close> or \<^verbatim>\<open>null\<close>. An element of the list \<^verbatim>\<open>updates\<close>
  is a \<open>partial_update option\<close>: \<open>None\<close> is an element that is \<^verbatim>\<open>null\<close> or \<^verbatim>\<open>undefined\<close>.
\<close>

record partial_update =
  u_productId :: "int option"
  basePrice :: "jsnum option"
  costPrice :: "jsnum option"

record partial_error =
  e_productId :: "int option"
  e_error :: string

record partial_result =
  successCount :: nat
  totalUpdates :: nat
  errors :: "partial_error list"

text \<open>
  The call \<^verbatim>\<open>this.update(productId, updateData)\<close> of source line 1443. For a \<^verbatim>\<open>productId\<close> that
  is \<^verbatim>\<open>undefined\<close>, \<^verbatim>\<open>parseInt\<close> gives NaN, which is the id of no product (line 86).
\<close>

definition update_entry ::
  "int \<Rightarrow> int option \<Rightarrow> productData \<Rightarrow> product list \<Rightarrow> string + (product \<times> product list)" where
  "update_entry now productId pd products =
    (case productId of
       None \<Rightarrow> Inl ''Product not found''
     | Some i \<Rightarrow> update now i pd products)"

text \<open>
  The body of the \<^verbatim>\<open>try\<close> of source lines 1421-1445 for an entry that is an object, at
  time \<open>now\<close>, with the \<^verbatim>\<open>catch\<close> of line 1447 as the \<open>Inl\<close> branch of the call of \<open>update\<close>.
\<close>

definition partial_step ::
  "int \<Rightarrow> product list \<times> nat \<times> partial_error list \<Rightarrow> partial_update \<Rightarrow>
   product list \<times> nat \<times> partial_error list" where
  "partial_step now st upd =
    (case st of (products, sc, errs) \<Rightarrow>
      (let pd = \<lparr>pd_price = basePrice upd, pd_purchasePrice = costPrice upd, pd_stock = None\<rparr> in
       if (case pd_price pd of None \<Rightarrow> False | Some v \<Rightarrow> js_le v (Num 0)) then
         (products, sc,
          errs @ [\<lparr>e_productId = u_productId upd,
                     e_error = ''Base price must be greater than 0''\<rparr>])
       else if (case pd_purchasePrice pd of None \<Rightarrow> False
                | Some c \<Rightarrow> (case pd_price pd of None \<Rightarrow> False | Some v \<Rightarrow> js_le v c)) then
         (products, sc,
          errs @ [\<lparr>e_productId = u_productId upd,
                     e_error = ''Base price must be greater than cost price''\<rparr>])
       else
         (case update_entry now (u_productId upd) pd products of
            Inl msg \<Rightarrow>
              (products, sc,
               errs @ [\<lparr>e_productId = u_productId upd, e_error = msg\<rparr>])
          | Inr (q, products') \<Rightarrow> (products', sc + 1, errs))))"

text \<open>
  The loop of source line 1419; \<open>clock k\<close> is the time at which the k-th entry is
  processed. For an element that is \<^verbatim>\<open>null\<close> or \<^verbatim>\<open>undefined\<close> the destructuring of line 1421
  throws a TypeError inside the \<^verbatim>\<open>try\<close>, and the \<^verbatim>\<open>catch\<close> block throws another one when it
  reads \<^verbatim>\<open>update.productId\<close> (line 1448): the loop is left, and the result is \<open>Inl\<close> with the
  state reached, the changes of the earlier entries included.
\<close>

fun partial_loop ::
  "(nat \<Rightarrow> int) \<Rightarrow> nat \<Rightarrow> partial_update option list \<Rightarrow>
   product list \<times> nat \<times> partial_error list \<Rightarrow>
   (product list \<times> nat \<times> partial_error list) + (product list \<times> nat \<times> partial_error list)" where
  "partial_loop clock k [] st = Inr st"
| "partial_loop clock k (None # updates) st = Inl st"
| "partial_loop clock k (Some upd # updates) st =
     partial_loop clock (Suc k) updates (partial_step (clock k) st upd)"

text \<open>
  The call: \<open>Inr\<close> is the returned summary, \<open>Inl\<close> the TypeError with which the promise is
  rejected; the second component is \<^verbatim>\<open>this.products\<close> after the call.
\<close>

definition bulkPartialUpdate ::
  "(nat \<Rightarrow> int) \<Rightarrow> partial_update option list \<Rightarrow> product list \<Rightarrow>
   (string + partial_result) \<times> product list" where
  "bulkPartialUpdate clock updates products =
    (case partial_loop clock 0 updates (products, 0, []) of
       Inl (products', n, errs) \<Rightarrow> (Inl ''TypeError'', products')
     | Inr (products', n, errs) \<Rightarrow>
         (Inr \<lparr>successCount = n, totalUpdates = length updates, errors = errs\<rparr>, products'))"

subsection \<open>Predicates of the statements\<close>

text \<open>The number \<open>n\<close> is not NaN and lies between \<open>lo\<close> and \<open>hi\<close>.\<close>

definition in_range :: "rat \<Rightarrow> rat \<Rightarrow> jsnum \<Rightarrow> bool" where
  "in_range lo hi n = (case n of NaN \<Rightarrow> False | Num x \<Rightarrow> lo \<le> x \<and> x \<le> hi)"

text \<open>The entry \<open>upd\<close> fails on the catalog \<open>products\<close>: its turn of the loop counts no success.\<close>

definition entry_fails :: "int \<Rightarrow> product list \<Rightarrow> partial_update \<Rightarrow> bool" where
  "entry_fails now products upd = (fst (snd (partial_step now (products, 0, []) upd)) = 0)"

text \<open>The error that the failing entry \<open>upd\<close> adds.\<close>

definition entry_error :: "int \<Rightarrow> product list \<Rightarrow> partial_update \<Rightarrow> partial_error" where
  "entry_error now products upd = hd (snd (snd (partial_step now (products, 0, []) upd)))"

text \<open>The outcome \<open>R\<close> of a call with one more entry, which failed with the error \<open>e\<close>, in front.\<close>

definition with_error ::
  "partial_error \<Rightarrow> (string + partial_result) \<times> product list \<Rightarrow>
   (string + partial_result) \<times> product list" where
  "with_error e R =
    (case fst R of
       Inl msg \<Rightarrow> (Inl msg, snd R)
     | Inr r \<Rightarrow>
         (Inr (r\<lparr>totalUpdates := Suc (totalUpdates r), errors := e # errors r\<rparr>), snd R))"

subsection \<open>The rounding rule of the specification\<close>

text \<open>
  Rounding half away from zero, as the specification words it: to an integer, and at
  2 decimals. They are compared with Math.round and with the roundings of the source.
\<close>

definition round_half_away :: "rat \<Rightarrow> int" where
  "round_half_away s = (if 0 \<le> s then \<lfloor>s + 1 / 2\<rfloor> else - \<lfloor>- s + 1 / 2\<rfloor>)"

definition round_half_away_from_zero :: "rat \<Rightarrow> rat" where
  "round_half_away_from_zero x = of_int (round_half_away (x * 100)) / 100"

subsection \<open>Concrete inputs\<close>

text \<open>A product with no purchase price, no discount and no history.\<close>

definition example_product :: product where
  "example_product =
    \<lparr>pid = 1, name = ''Apple'', category = ''Fruits'', stock = 20, price = Num 100,
     purchasePrice = None, previousPrice = None, discountType = None, discountValue = None,
     discountStartDate = None, discountEndDate = None, discountPriority = None,
     profitMargin = None, priceHistory = None, lastUpdated = None\<rparr>"

text \<open>The request \<^verbatim>\<open>{strategy: 'percentage', value: 10, category: 'all'}\<close>, no other key set.\<close>

definition example_request :: updateData where
  "example_request =
    \<lparr>ud_strategy = Some ''percentage'', ud_value = Some (Num 10), ud_minPrice = None,
     ud_maxPrice = None, ud_category = Some ''all'', ud_applyToLowStock = False,
     ud_stockThreshold = None, ud_activeTab = None, ud_categoryDiscount = False,
     ud_discountType = None, ud_discountValue = None, ud_discountStartDate = None,
     ud_discountEndDate = None, ud_conflictResolution = None\<rparr>"

text \<open>The same request with \<^verbatim>\<open>activeTab: 'pricing'\<close>.\<close>

definition pricing_request :: updateData where
  "pricing_request = example_request\<lparr>ud_activeTab := Some ''pricing''\<rparr>"

text \<open>The patch \<^verbatim>\<open>{price: 120}\<close>.\<close>

definition example_patch :: productData where
  "example_patch = \<lparr>pd_price = Some (Num 120), pd_purchasePrice = None, pd_stock = None\<rparr>"


text \<open>
  A category discount of the fixed amount 5 under the merge policy. The validator asks
  for a truthy \<^verbatim>\<open>value\<close> whatever the tab, so the request carries one.
\<close>

definition merge_request :: updateData where
  "merge_request =
    example_request\<lparr>ud_strategy := Some ''category_discount'', ud_value := Some (Num 5),
      ud_activeTab := Some ''discounts'', ud_categoryDiscount := True,
      ud_discountType := Some ''fixed'', ud_discountValue := Some (Num 5),
      ud_conflictResolution := Some ''merge''\<rparr>"

text \<open>The example product with a discount of 50 percent, that is 50 off its price of 100.\<close>

definition discounted_product :: product where
  "discounted_product =
    example_product\<lparr>discountType := Some ''Percentage'', discountValue := Some (Num 50)\<rparr>"

text \<open>
  Two discounted products of one category, with the discount windows 1 to 10 January 2024
  and 5 to 15 January 2024.
\<close>

definition offer_a :: product where
  "offer_a =
    example_product\<lparr>discountType := Some ''Percentage'', discountValue := Some (Num 10),
      discountStartDate := Some 1704067200000, discountEndDate := Some 1704844800000\<rparr>"

definition offer_b :: product where
  "offer_b =
    example_product\<lparr>pid := 2, name := ''Pear'', discountType := Some ''Percentage'',
      discountValue := Some (Num 10),
      discountStartDate := Some 1704412800000, discountEndDate := Some 1705276800000\<rparr>"

section \<open>Verified properties\<close>

subsection \<open>Binary64 rounding is monotone\<close>

lemma round_even_cases: "round_even y = \<lfloor>y\<rfloor> \<or> round_even y = \<lfloor>y\<rfloor> + 1"
  by (simp add: round_even_def Let_def)

lemma round_even_of_int: "round_even (of_int n) = n"
  by (simp add: round_even_def Let_def)

lemma round_even_mono:
  assumes le: "y1 \<le> y2"
  shows "round_even y1 \<le> round_even y2"
proof (cases "\<lfloor>y1\<rfloor> = \<lfloor>y2\<rfloor>")
  case True
  with le show ?thesis
    by (auto simp: round_even_def Let_def)
next
  case False
  with floor_mono [OF le] have "\<lfloor>y1\<rfloor> + 1 \<le> \<lfloor>y2\<rfloor>"
    by simp
  with round_even_cases [of y1] round_even_cases [of y2] show ?thesis
    by linarith
qed

lemma expo_bounds:
  assumes "0 < a"
  shows "2 powi expo a \<le> a \<and> a < 2 powi (expo a + 1)"
proof (cases "1 \<le> a")
  case True
  define n where "n = \<lfloor>a\<rfloor>"
  have n: "0 < n"
    using True by (simp add: n_def)
  have e: "expo a = bitlen n - 1"
    using True by (simp add: expo_def n_def)
  have b1: "1 \<le> bitlen n"
    using n by (simp add: bitlen_alt_def)
  from bitlen_bounds [OF n]
  have lo: "2 ^ nat (bitlen n - 1) \<le> n" and hi: "n + 1 \<le> 2 ^ nat (bitlen n)"
    by auto
  from lo have "(of_int (2 ^ nat (bitlen n - 1)) :: rat) \<le> of_int n"
    by (simp only: of_int_le_iff)
  then have lo': "(2::rat) ^ nat (bitlen n - 1) \<le> of_int n"
    by simp
  from hi have "(of_int (n + 1) :: rat) \<le> of_int (2 ^ nat (bitlen n))"
    by (simp only: of_int_le_iff)
  then have hi': "of_int n + 1 \<le> (2::rat) ^ nat (bitlen n)"
    by simp
  have an: "of_int n \<le> a" "a < of_int n + 1"
    unfolding n_def by linarith+
  have p1: "(2::rat) powi (bitlen n - 1) = 2 ^ nat (bitlen n - 1)"
    using b1 by (simp add: power_int_def)
  have p2: "(2::rat) powi (bitlen n) = 2 ^ nat (bitlen n)"
    using b1 by (simp add: power_int_def)
  from lo' an(1) have l: "2 powi expo a \<le> a"
    unfolding e p1 by linarith
  from hi' an(2) have "a < 2 powi (expo a + 1)"
    unfolding e by (simp add: p2)
  with l show ?thesis ..
next
  case False
  define y where "y = 1 / a"
  have y1: "1 < y"
    using False assms by (simp add: y_def)
  define m where "m = \<lceil>y\<rceil> - 1"
  have m: "0 < m"
    using y1 by (simp add: m_def)
  have e: "expo a = - bitlen m"
    using False by (simp add: expo_def m_def y_def)
  have b1: "1 \<le> bitlen m"
    using m by (simp add: bitlen_alt_def)
  from bitlen_bounds [OF m]
  have lo: "2 ^ nat (bitlen m - 1) \<le> m" and hi: "m + 1 \<le> 2 ^ nat (bitlen m)"
    by auto
  from lo have "(of_int (2 ^ nat (bitlen m - 1)) :: rat) \<le> of_int m"
    by (simp only: of_int_le_iff)
  then have lo': "(2::rat) ^ nat (bitlen m - 1) \<le> of_int m"
    by simp
  from hi have "(of_int (m + 1) :: rat) \<le> of_int (2 ^ nat (bitlen m))"
    by (simp only: of_int_le_iff)
  then have hi': "of_int m + 1 \<le> (2::rat) ^ nat (bitlen m)"
    by simp
  have ym: "of_int m < y" "y \<le> of_int m + 1"
    unfolding m_def by linarith+
  have p1: "(2::rat) powi (bitlen m) = 2 ^ nat (bitlen m)"
    using b1 by (simp add: power_int_def)
  have p2: "(2::rat) powi (bitlen m - 1) = 2 ^ nat (bitlen m - 1)"
    using b1 by (simp add: power_int_def)
  from hi' ym(2) have yhi: "y \<le> 2 powi (bitlen m)"
    unfolding p1 by linarith
  from lo' ym(1) have ylo: "2 powi (bitlen m - 1) < y"
    unfolding p2 by linarith
  have a: "a = 1 / y"
    using assms by (simp add: y_def)
  have ypos: "0 < y"
    using y1 by linarith
  have "2 powi (- bitlen m) = 1 / ((2::rat) powi bitlen m)"
    by (simp add: power_int_minus field_simps)
  also have "\<dots> \<le> 1 / y"
    using yhi ypos by (simp add: frac_le)
  finally have "2 powi (- bitlen m) \<le> a"
    by (simp only: a)
  then have l: "2 powi expo a \<le> a"
    by (simp only: e)
  have "1 / y < 1 / ((2::rat) powi (bitlen m - 1))"
    using ylo by (simp add: frac_less2)
  also have "\<dots> = 2 powi (- bitlen m + 1)"
    using power_int_minus [of "2::rat" "bitlen m - 1"] by (simp add: field_simps)
  finally have "a < 2 powi (- bitlen m + 1)"
    by (simp only: a)
  then have "a < 2 powi (expo a + 1)"
    by (simp only: e)
  with l show ?thesis ..
qed

lemma pow2_mono: "k \<le> l \<Longrightarrow> (2::rat) powi k \<le> 2 powi l"
  by (simp add: power_int_increasing)

lemma pow2_less_imp: "(2::rat) powi k < 2 powi l \<Longrightarrow> k < l"
  using pow2_mono [of l k] by (cases "k < l") auto

lemma expo_mono:
  assumes "0 < a" and "a \<le> b"
  shows "expo a \<le> expo b"
proof -
  from assms have b: "0 < b"
    by linarith
  from expo_bounds [OF assms(1)] expo_bounds [OF b] assms(2)
  have "(2::rat) powi expo a < 2 powi (expo b + 1)"
    by linarith
  from pow2_less_imp [OF this] show ?thesis
    by simp
qed

lemma quantum_pos: "0 < quantum a"
  by (simp add: quantum_def)

lemma quantum_mult: "quantum a * 2 powi k = 2 powi (max (expo a) (- 1022) - 52 + k)"
  unfolding quantum_def by (subst power_int_add) simp_all

lemma rnd_pos_upper:
  assumes "0 < a"
  shows "rnd_pos a \<le> 2 powi (max (expo a) (- 1022) + 1)"
proof -
  define E where "E = max (expo a) (- 1022)"
  define q where "q = quantum a"
  define P where "P = (2::rat) powi 53"
  have q: "0 < q"
    by (simp add: q_def quantum_pos)
  have P: "P = of_int (2 ^ 53)"
    by (simp add: P_def)
  have "E - 52 + 53 = E + 1"
    by simp
  with quantum_mult [of a 53] have qE: "q * P = 2 powi (E + 1)"
    by (simp only: q_def P_def E_def)
  from expo_bounds [OF assms] have "a < 2 powi (expo a + 1)" ..
  also have "\<dots> \<le> 2 powi (E + 1)"
    by (rule pow2_mono) (simp add: E_def)
  finally have "a < q * P"
    by (simp only: qE)
  then have "a / q < P"
    using q by (simp add: field_simps)
  then have "a / q \<le> of_int (2 ^ 53)"
    by (simp only: P)
  from round_even_mono [OF this] have "round_even (a / q) \<le> 2 ^ 53"
    by (simp only: round_even_of_int)
  then have "(of_int (round_even (a / q)) :: rat) \<le> P"
    unfolding P by (simp only: of_int_le_iff)
  then have "of_int (round_even (a / q)) * q \<le> P * q"
    using q by (simp only: mult_le_cancel_right_pos)
  also have "P * q = 2 powi (E + 1)"
    using qE by (simp only: mult.commute)
  finally show ?thesis
    by (simp only: rnd_pos_def q_def E_def)
qed

lemma rnd_pos_lower:
  assumes "0 < a" and "- 1022 \<le> expo a"
  shows "2 powi expo a \<le> rnd_pos a"
proof -
  define q where "q = quantum a"
  define P where "P = (2::rat) powi 52"
  have q: "0 < q"
    by (simp add: q_def quantum_pos)
  have P: "P = of_int (2 ^ 52)"
    by (simp add: P_def)
  have "max (expo a) (- 1022) - 52 + 52 = expo a"
    using assms(2) by simp
  with quantum_mult [of a 52] have qE: "q * P = 2 powi expo a"
    by (simp only: q_def P_def)
  from expo_bounds [OF assms(1)] have "q * P \<le> a"
    by (simp only: qE)
  then have "P \<le> a / q"
    using q by (simp add: field_simps)
  then have "of_int (2 ^ 52) \<le> a / q"
    by (simp only: P)
  from round_even_mono [OF this] have "2 ^ 52 \<le> round_even (a / q)"
    by (simp only: round_even_of_int)
  then have "P \<le> of_int (round_even (a / q))"
    unfolding P by (simp only: of_int_le_iff)
  then have "P * q \<le> of_int (round_even (a / q)) * q"
    using q by (simp only: mult_le_cancel_right_pos)
  moreover have "P * q = 2 powi expo a"
    using qE by (simp only: mult.commute)
  ultimately show ?thesis
    by (simp only: rnd_pos_def q_def)
qed

lemma rnd_pos_nonneg:
  assumes "0 < a"
  shows "0 \<le> rnd_pos a"
proof -
  have "0 \<le> a / quantum a"
    using assms quantum_pos [of a] by simp
  then have "of_int 0 \<le> a / quantum a"
    by simp
  from round_even_mono [OF this] have "0 \<le> round_even (a / quantum a)"
    by (simp only: round_even_of_int)
  then show ?thesis
    using quantum_pos [of a] by (simp add: rnd_pos_def)
qed

lemma rnd_pos_mono:
  assumes "0 < a" and "a \<le> b"
  shows "rnd_pos a \<le> rnd_pos b"
proof -
  from assms have b: "0 < b"
    by linarith
  define Ea where "Ea = max (expo a) (- 1022)"
  define Eb where "Eb = max (expo b) (- 1022)"
  from expo_mono [OF assms] have le: "Ea \<le> Eb"
    by (simp add: Ea_def Eb_def)
  show ?thesis
  proof (cases "Ea = Eb")
    case True
    then have q: "quantum a = quantum b"
      by (simp add: quantum_def Ea_def Eb_def)
    have "a / quantum b \<le> b / quantum b"
      using assms(2) quantum_pos [of b] by (simp add: divide_right_mono)
    from round_even_mono [OF this]
    have "(of_int (round_even (a / quantum b)) :: rat) \<le> of_int (round_even (b / quantum b))"
      by (simp only: of_int_le_iff)
    then show ?thesis
      using quantum_pos [of b] by (simp add: rnd_pos_def q)
  next
    case False
    with le have lt: "Ea + 1 \<le> Eb"
      by simp
    then have eb: "Eb = expo b" "- 1022 \<le> expo b"
      by (auto simp: Ea_def Eb_def)
    have "rnd_pos a \<le> 2 powi (Ea + 1)"
      using rnd_pos_upper [OF assms(1)] by (simp add: Ea_def)
    also have "\<dots> \<le> 2 powi Eb"
      using lt by (rule pow2_mono)
    also have "\<dots> \<le> rnd_pos b"
      using rnd_pos_lower [OF b eb(2)] by (simp add: eb(1))
    finally show ?thesis .
  qed
qed

text \<open>Rounding to binary64 preserves the order.\<close>

lemma rnd_mono:
  assumes "x \<le> y"
  shows "rnd x \<le> rnd y"
proof -
  consider "0 < x" | "x = 0" | "x < 0" "y < 0" | "x < 0" "0 \<le> y"
    by linarith
  then show ?thesis
  proof cases
    case 1
    with assms rnd_pos_mono [of x y] show ?thesis
      by (simp add: rnd_def)
  next
    case 2
    with assms rnd_pos_nonneg [of y] show ?thesis
      by (auto simp: rnd_def)
  next
    case 3
    with assms rnd_pos_mono [of "- y" "- x"] show ?thesis
      by (simp add: rnd_def)
  next
    case 4
    with rnd_pos_nonneg [of "- x"] rnd_pos_nonneg [of y] show ?thesis
      by (auto simp: rnd_def)
  qed
qed

text \<open>The bounds of the price range and their hundredfolds are binary64 values.\<close>

lemma rnd_1: "rnd 1 = 1"
  by code_simp

lemma rnd_100: "rnd 100 = 100"
  by code_simp

lemma rnd_100000: "rnd 100000 = 100000"
  by code_simp

lemma rnd_10000000: "rnd 10000000 = 10000000"
  by code_simp

lemma round2_range:
  assumes "1 \<le> x" and "x \<le> 100000"
  shows "in_range 1 100000 (round2 (Num x))"
proof -
  define s where "s = rnd (x * 100)"
  define k where "k = round_half_up s"
  have "100 \<le> x * 100" using assms(1) by simp
  from rnd_mono [OF this] have s1: "100 \<le> s" by (simp add: s_def rnd_100)
  have "x * 100 \<le> 10000000" using assms(2) by simp
  from rnd_mono [OF this] have s2: "s \<le> 10000000" by (simp add: s_def rnd_10000000)
  have k1: "100 \<le> k" using s1 by (simp add: k_def round_half_up_def le_floor_iff)
  have k2: "k \<le> 10000000" using s2 by (simp add: k_def round_half_up_def floor_le_iff)
  have "(1::rat) \<le> of_int k / 100" using k1 by (simp add: le_divide_eq)
  from rnd_mono [OF this] have r1: "1 \<le> rnd (of_int k / 100)" by (simp add: rnd_1)
  have "of_int k / 100 \<le> (100000::rat)" using k2 by (simp add: divide_le_eq)
  from rnd_mono [OF this] have r2: "rnd (of_int k / 100) \<le> 100000" by (simp add: rnd_100000)
  have "round2 (Num x) = Num (rnd (of_int k / 100))"
    by (simp add: round2_def scaled_def k_def s_def)
  with r1 r2 show ?thesis by (simp add: in_range_def)
qed

subsection \<open>validateBulkPriceUpdate\<close>

text \<open>
  Claim C10. validateBulkPriceUpdate treats a numeric zero as an absent field: a request
  with strategy 'range' and minPrice = 0 or maxPrice = 0 is invalid with the error
  'Both minimum and maximum prices are required for range strategy', and a request with
  strategy 'percentage' or 'fixed' and value = 0 is invalid with 'Update value is required'.
\<close>

theorem C10_zero_is_absent:
  "(ud_strategy u = Some ''range'' \<and>
      (ud_minPrice u = Some (Num 0) \<or> ud_maxPrice u = Some (Num 0))
      \<longrightarrow> validateBulkPriceUpdate u =
          \<lparr>isValid = False,
           error = Some ''Both minimum and maximum prices are required for range strategy''\<rparr>)
   \<and> ((ud_strategy u = Some ''percentage'' \<or> ud_strategy u = Some ''fixed'') \<and>
        ud_value u = Some (Num 0)
      \<longrightarrow> validateBulkPriceUpdate u = \<lparr>isValid = False, error = Some ''Update value is required''\<rparr>)"
  by (auto simp: validateBulkPriceUpdate_def truthy_def truthy_str_def)

text \<open>
  The range request with minPrice 0 and maxPrice 80, and the fixed request with value 0,
  are both refused.
\<close>

theorem C10_zero_is_absent_witness:
  "validateBulkPriceUpdate
     (example_request\<lparr>ud_strategy := Some ''range'', ud_minPrice := Some (Num 0),
        ud_maxPrice := Some (Num 80)\<rparr>) =
     \<lparr>isValid = False,
      error = Some ''Both minimum and maximum prices are required for range strategy''\<rparr>
   \<and> validateBulkPriceUpdate
       (example_request\<lparr>ud_strategy := Some ''fixed'', ud_value := Some (Num 0)\<rparr>) =
     \<lparr>isValid = False, error = Some ''Update value is required''\<rparr>"
  using
    C10_zero_is_absent [of "example_request\<lparr>ud_strategy := Some ''range'',
      ud_minPrice := Some (Num 0), ud_maxPrice := Some (Num 80)\<rparr>"]
    C10_zero_is_absent [of "example_request\<lparr>ud_strategy := Some ''fixed'',
      ud_value := Some (Num 0)\<rparr>"]
  by simp

subsection \<open>validateOfferConflicts\<close>

lemma has_discount_parse: "js_gt (discountValue_or_0 p) (Num 0) = has_discount p"
proof (cases "discountValue p")
  case None
  then show ?thesis
    by (simp add: discountValue_or_0_def num_or_def truthy_def has_discount_def positive_def
        js_gt_def)
next
  case (Some n)
  then show ?thesis
    by (cases n)
      (auto simp: discountValue_or_0_def num_or_def truthy_def has_discount_def positive_def
        js_gt_def)
qed

lemma reports_overlap_single:
  "reports_overlap (validateOfferConflicts (Some A) [Some B] None) =
     (category A = category B \<and> has_discount A \<and> has_discount B \<and>
      (\<exists>s1 e1 s2 e2. discountStartDate A = Some s1 \<and> discountEndDate A = Some e1 \<and>
         discountStartDate B = Some s2 \<and> discountEndDate B = Some e2 \<and> s1 \<le> e2 \<and> s2 \<le> e1))"
  by (auto simp: reports_overlap_def validateOfferConflicts_def Let_def has_discount_parse
      overlap_conflicts_def categoryProducts_def not_excluded_def)

text \<open>
  Claim C6. Overlapping-date conflict detection is symmetric: validateOfferConflicts(A, [B],
  null) reports an overlapping_dates conflict exactly when validateOfferConflicts(B, [A],
  null) does, namely exactly when A and B have the same category, both carry a discount
  (discountValue > 0) with a defined window, and the windows [s1, e1] and [s2, e2] satisfy
  s1 \<le> e2 and s2 \<le> e1.
\<close>

theorem C6_overlap_symmetric:
  "reports_overlap (validateOfferConflicts (Some A) [Some B] None) =
     (category A = category B \<and> has_discount A \<and> has_discount B \<and>
      (\<exists>s1 e1 s2 e2. discountStartDate A = Some s1 \<and> discountEndDate A = Some e1 \<and>
         discountStartDate B = Some s2 \<and> discountEndDate B = Some e2 \<and> s1 \<le> e2 \<and> s2 \<le> e1))
   \<and> reports_overlap (validateOfferConflicts (Some A) [Some B] None) =
     reports_overlap (validateOfferConflicts (Some B) [Some A] None)"
proof -
  have "reports_overlap (validateOfferConflicts (Some A) [Some B] None) =
     reports_overlap (validateOfferConflicts (Some B) [Some A] None)"
    unfolding reports_overlap_single by auto
  then show ?thesis
    using reports_overlap_single [of A B] by simp
qed

text \<open>
  The two windows overlap: each of the two calls reports the conflict, and the first
  one reports exactly this conflict.
\<close>

theorem C6_overlap_symmetric_witness:
  "validateOfferConflicts (Some offer_a) [Some offer_b] None =
     \<lparr>o_isValid = False,
      o_conflicts = [\<lparr>ctype = overlapping_dates, c_productId = Some 2,
                      c_productName = Some ''Pear'',
                      c_details = [1704412800000, 1705276800000]\<rparr>],
      o_warnings = [], o_error = Some ''Offer conflicts detected''\<rparr>
   \<and> reports_overlap (validateOfferConflicts (Some offer_a) [Some offer_b] None)
   \<and> reports_overlap (validateOfferConflicts (Some offer_b) [Some offer_a] None)"
proof -
  have "validateOfferConflicts (Some offer_a) [Some offer_b] None =
     \<lparr>o_isValid = False,
      o_conflicts = [\<lparr>ctype = overlapping_dates, c_productId = Some 2,
                      c_productName = Some ''Pear'',
                      c_details = [1704412800000, 1705276800000]\<rparr>],
      o_warnings = [], o_error = Some ''Offer conflicts detected''\<rparr>"
    by code_simp
  then show ?thesis
    using C6_overlap_symmetric [of offer_a offer_b]
    by (simp add: reports_overlap_def)
qed

subsection \<open>The loop of bulkUpdatePrices\<close>

lemma findIndex_Some: "findIndex P xs = Some i \<Longrightarrow> i < length xs \<and> P (xs ! i)"
  by (induction xs arbitrary: i) (auto split: if_splits)

lemma list_all2_update_right:
  assumes "\<And>q. R q q" and "i < length ps" and "R (ps ! i) x"
  shows "list_all2 R ps (ps[i := x])"
proof -
  have "list_all2 R ps ps"
    using assms(1) by (simp add: list_all2_same)
  from list_all2_update_cong [OF this assms(3), of i] show ?thesis
    by simp
qed

text \<open>
  A reflexive and transitive relation that every committed record satisfies towards the
  record it replaces holds between the products before and after the whole call.
\<close>

lemma bulk_step_rel:
  assumes "\<And>q. R q q" and "\<And>q. commits u p \<Longrightarrow> R q (updatedProduct u p q)"
    and "bulk_step u (ps, n, cs) p = (ps', n', cs')"
  shows "list_all2 R ps ps'"
  using assms(3) list_all2_update_right [of R _ ps, OF assms(1)] assms(1,2)
  by (auto simp: bulk_step_def Let_def list_all2_same split: if_splits option.splits
      dest!: findIndex_Some)

lemma foldl_bulk_step_rel:
  assumes refl: "\<And>q. R q q" and trans: "\<And>a b c. R a b \<Longrightarrow> R b c \<Longrightarrow> R a c"
    and step: "\<And>p q. commits u p \<Longrightarrow> R q (updatedProduct u p q)"
  shows "foldl (bulk_step u) (ps, n, cs) fs = (ps', n', cs') \<Longrightarrow> list_all2 R ps ps'"
proof (induction fs arbitrary: ps n cs)
  case Nil
  then show ?case
    using refl by (simp add: list_all2_same)
next
  case (Cons p fs)
  obtain ps1 n1 cs1 where s: "bulk_step u (ps, n, cs) p = (ps1, n1, cs1)"
    by (cases "bulk_step u (ps, n, cs) p") auto
  have a: "list_all2 R ps ps1"
    using bulk_step_rel [of R u p, OF refl step s] .
  from Cons.prems s have "foldl (bulk_step u) (ps1, n1, cs1) fs = (ps', n', cs')"
    by simp
  from Cons.IH [OF this] have b: "list_all2 R ps1 ps'" .
  from list_all2_trans [of R R R, OF trans a b] show ?case .
qed

lemma bulkUpdatePrices_rel:
  assumes refl: "\<And>q. R q q" and trans: "\<And>a b c. R a b \<Longrightarrow> R b c \<Longrightarrow> R a c"
    and step: "\<And>p q. commits u p \<Longrightarrow> R q (updatedProduct u p q)"
    and "bulkUpdatePrices u products = Inr (r, products')"
  shows "list_all2 R products products'"
proof -
  obtain ps' n' cs' where
    f: "foldl (bulk_step u) (products, 0, []) (filteredProducts u products) = (ps', n', cs')"
    by (cases "foldl (bulk_step u) (products, 0, []) (filteredProducts u products)") auto
  with assms(4) have "products' = ps'"
    by (auto simp: bulkUpdatePrices_def Let_def split: if_splits)
  with foldl_bulk_step_rel [of R u, OF refl trans step f] show ?thesis
    by simp
qed

subsection \<open>The price range of bulkUpdatePrices\<close>

lemma price_guards_range: "price_guards u x = NaN \<or> in_range 1 100000 (price_guards u x)"
proof -
  have "Math_max (Num 1) (Math_min n (Num 100000)) = NaN \<or>
      in_range 1 100000 (Math_max (Num 1) (Math_min n (Num 100000)))" for n
    by (cases n) (simp_all add: in_range_def)
  then show ?thesis
    by (simp add: price_guards_def Let_def)
qed

lemma price_changed_Num: "price_changed np o' \<Longrightarrow> np \<noteq> NaN"
  by (cases np; cases o') (simp_all add: price_changed_def js_gt_def lit_def)

lemma updatedProduct_price: "price (updatedProduct u p q) = round2 (computed_price u p)"
  by (simp add: updatedProduct_def Let_def)

lemma committed_price_range:
  assumes "commits u p"
  shows "in_range 1 100000 (price (updatedProduct u p q))"
proof -
  from assms have "computed_price u p \<noteq> NaN"
    by (auto simp: commits_def dest: price_changed_Num)
  with price_guards_range [of u "discount_price u p (strategy_price u (price p))"]
  have "in_range 1 100000 (computed_price u p)"
    by (simp add: computed_price_def)
  then obtain x where x: "computed_price u p = Num x" "1 \<le> x" "x \<le> 100000"
    by (cases "computed_price u p") (simp_all add: in_range_def)
  from round2_range [OF x(2,3)] show ?thesis
    by (simp add: updatedProduct_price x(1))
qed

text \<open>
  The price that the loop computes for a record is NaN or lies in the range, whether the
  record is committed or not.
\<close>

lemma computed_price_range:
  "price (updatedProduct u p q) = NaN \<or> in_range 1 100000 (price (updatedProduct u p q))"
proof (cases "computed_price u p")
  case NaN
  have "round2 NaN = NaN"
    by code_simp
  with NaN show ?thesis
    by (simp add: updatedProduct_price)
next
  case (Num x)
  with price_guards_range [of u "discount_price u p (strategy_price u (price p))"]
  have "1 \<le> x" "x \<le> 100000"
    by (simp_all add: computed_price_def in_range_def)
  from round2_range [OF this] show ?thesis
    by (simp add: updatedProduct_price Num)
qed

text \<open>
  Claim C5. For every bulk price update request and every record it commits, the committed
  price lies in the range from 1 to 100000, also after the final rounding to 2 decimals:
  every record of the store after the call is the record that was there before, or has a
  price in that range. The price computed for a record lies in that range whatever the
  request's minPrice and maxPrice are, unless it is NaN; a price that is NaN is never
  committed, so the record written back for a product that the loop commits has a price in
  that range.
\<close>

theorem C5_committed_price_in_range:
  assumes "bulkUpdatePrices u products = Inr (r, products')"
  shows "list_all2 (\<lambda>p p'. p' = p \<or> in_range 1 100000 (price p')) products products'
    \<and> (price (updatedProduct u p q) = NaN \<or> in_range 1 100000 (price (updatedProduct u p q)))
    \<and> (commits u p \<longrightarrow> in_range 1 100000 (price (updatedProduct u p q)))"
proof -
  have "list_all2 (\<lambda>p p'. p' = p \<or> in_range 1 100000 (price p')) products products'"
    by (rule bulkUpdatePrices_rel [OF _ _ _ assms]) (use committed_price_range in auto)
  with committed_price_range [of u p q] computed_price_range [of u p q] show ?thesis
    by blast
qed

text \<open>Adding 200000 to the price 100 commits the price 100000.\<close>

theorem C5_committed_price_in_range_witness:
  "bulkUpdatePrices (pricing_request\<lparr>ud_strategy := Some ''fixed'', ud_value := Some (Num 200000)\<rparr>)
       [example_product] =
     Inr (\<lparr>updatedCount = 1, totalFiltered = 1, conflictCount = 0, strategy = ''fixed'',
           conflictProducts = []\<rparr>,
          [example_product\<lparr>price := Num 100000, previousPrice := Some (Num 100)\<rparr>])
   \<and> list_all2 (\<lambda>p p'. p' = p \<or> in_range 1 100000 (price p')) [example_product]
        [example_product\<lparr>price := Num 100000, previousPrice := Some (Num 100)\<rparr>]
   \<and> commits (pricing_request\<lparr>ud_strategy := Some ''fixed'', ud_value := Some (Num 200000)\<rparr>)
        example_product"
proof -
  have h: "bulkUpdatePrices
       (pricing_request\<lparr>ud_strategy := Some ''fixed'', ud_value := Some (Num 200000)\<rparr>)
       [example_product] =
     Inr (\<lparr>updatedCount = 1, totalFiltered = 1, conflictCount = 0, strategy = ''fixed'',
           conflictProducts = []\<rparr>,
          [example_product\<lparr>price := Num 100000, previousPrice := Some (Num 100)\<rparr>])"
    by code_simp
  have c: "commits (pricing_request\<lparr>ud_strategy := Some ''fixed'', ud_value := Some (Num 200000)\<rparr>)
        example_product"
    by code_simp
  from C5_committed_price_in_range [OF h] h c show ?thesis
    by simp
qed

subsection \<open>The percentage scenario of bulkUpdatePrices\<close>

text \<open>
  The arithmetic of the scenario: 100 * (1 + 10 / 100) is 110.00000000000001 in binary64
  and 200 * (1 + 10 / 100) is 220.00000000000003; both differ from the original price by
  more than 0.01 and are rounded to 110 and 220.
\<close>

lemma pricing_request_valid: "isValid (validateBulkPriceUpdate pricing_request)"
  by code_simp

lemma pricing_request_fields:
  "discounts_tab pricing_request = False" "ud_category pricing_request = Some ''all''"
  "ud_applyToLowStock pricing_request = False" "ud_strategy pricing_request = Some ''percentage''"
  by code_simp+

lemma pricing_100:
  "price_guards pricing_request (strategy_price pricing_request (Num 100)) =
     Num (7740561859543041 / 70368744177664)"
  "price_changed (Num (7740561859543041 / 70368744177664)) (Num 100)"
  "round2 (Num (7740561859543041 / 70368744177664)) = Num 110"
  by code_simp+

lemma pricing_200:
  "price_guards pricing_request (strategy_price pricing_request (Num 200)) =
     Num (7740561859543041 / 35184372088832)"
  "price_changed (Num (7740561859543041 / 35184372088832)) (Num 200)"
  "round2 (Num (7740561859543041 / 35184372088832)) = Num 220"
  by code_simp+

text \<open>
  Claim C4, as the code has it. The request {strategy: 'percentage', value: 10, category:
  'all'} changes prices only when it also carries activeTab: 'pricing'. With that key, on
  a catalog of two products with different ids priced 100 and 200, the call commits the
  prices 110 and 220 and returns updatedCount = 2.
\<close>

theorem C4_percentage_on_pricing_tab:
  assumes "pid a \<noteq> pid b" and "price a = Num 100" and "price b = Num 200"
  shows "bulkUpdatePrices pricing_request [a, b] =
     Inr (\<lparr>updatedCount = 2, totalFiltered = 2, conflictCount = 0, strategy = ''percentage'',
           conflictProducts = []\<rparr>,
          [a\<lparr>price := Num 110, previousPrice := Some (Num 100)\<rparr>,
           b\<lparr>price := Num 220, previousPrice := Some (Num 200)\<rparr>])"
  using assms
  by (simp add: bulkUpdatePrices_def pricing_request_valid pricing_request_fields
      filteredProducts_def bulk_step_def is_conflict_def commits_def shouldUpdate_def
      computed_price_def discount_price_def updatedProduct_def pricing_100 pricing_200
      truthy_str_def Let_def)

theorem C4_percentage_on_pricing_tab_witness:
  "bulkUpdatePrices pricing_request
      [example_product, example_product\<lparr>pid := 2, price := Num 200\<rparr>] =
     Inr (\<lparr>updatedCount = 2, totalFiltered = 2, conflictCount = 0, strategy = ''percentage'',
           conflictProducts = []\<rparr>,
          [example_product\<lparr>price := Num 110, previousPrice := Some (Num 100)\<rparr>,
           example_product\<lparr>pid := 2, price := Num 220, previousPrice := Some (Num 200)\<rparr>])"
  using C4_percentage_on_pricing_tab
    [of example_product "example_product\<lparr>pid := 2, price := Num 200\<rparr>"]
  by (simp add: example_product_def)

text \<open>
  Claim C4 as stated fails: with no other field than strategy, value and category, the
  request leaves both prices as they were and returns updatedCount = 0.
\<close>

theorem C4_counterexample:
  "bulkUpdatePrices example_request
      [example_product, example_product\<lparr>pid := 2, price := Num 200\<rparr>] =
     Inr (\<lparr>updatedCount = 0, totalFiltered = 2, conflictCount = 0, strategy = ''percentage'',
           conflictProducts = []\<rparr>,
          [example_product, example_product\<lparr>pid := 2, price := Num 200\<rparr>])"
  by code_simp

subsection \<open>The merge policy of bulkUpdatePrices\<close>

text \<open>
  Under the merge policy a new discount of the percentage type replaces an existing
  discount exactly when its amount is not at most the existing one; a new discount of any
  other type replaces it always.
\<close>

lemma shouldUpdate_merge:
  assumes "discounts_tab u" and "has_discount p" and "ud_conflictResolution u = Some ''merge''"
  shows "shouldUpdate u p =
    (if ud_discountType u = Some ''percentage''
     then \<not> js_le (newDiscountAmount u p) (existingDiscountAmount p) else True)"
  using assms by (auto simp: shouldUpdate_def)

text \<open>
  Claim C7 at a failing input. The product carries a discount of 50 percent (a reduction
  of 50 on its price of 100) and the merge request brings a fixed discount of 5. The
  claim keeps the larger reduction and leaves the record unchanged; the code compares
  the two only when the new discount is of the percentage type, so here it writes the new
  discount: price 95, discountType 'fixed', discountValue 5.
\<close>

theorem C7_merge_overrides_with_fixed_discount:
  "bulkUpdatePrices merge_request [discounted_product] =
     Inr (\<lparr>updatedCount = 1, totalFiltered = 1, conflictCount = 0,
           strategy = ''category_discount'', conflictProducts = []\<rparr>,
          [discounted_product\<lparr>price := Num 95, previousPrice := Some (Num 100),
             discountType := Some ''fixed'', discountValue := Some (Num 5)\<rparr>])
   \<and> existingDiscountAmount discounted_product = Num 50
   \<and> js_sub (price discounted_product) (js_sub (price discounted_product) (Num 5)) = Num 5"
  by code_simp

subsection \<open>update: margin and history\<close>

lemma update_Inr:
  assumes "update now i pd products = Inr (q, products')"
  shows "\<exists>index. findIndex (\<lambda>p. pid p = i) products = Some index \<and>
           q = recompute_margin (merge_patch (track_price_change now (products ! index) pd) pd) \<and>
           products' = products[index := q] \<and>
           \<not> (case pd_price pd of None \<Rightarrow> False
              | Some v \<Rightarrow> (case pd_purchasePrice pd of None \<Rightarrow> False | Some c \<Rightarrow> js_le v c))"
  using assms by (auto simp: update_def Let_def split: option.splits if_splits)



lemma price_recompute: "price (recompute_margin p) = price p"
  by (simp add: recompute_margin_def)

lemma purchasePrice_recompute: "purchasePrice (recompute_margin p) = purchasePrice p"
  by (simp add: recompute_margin_def)



lemma merge_both:
  assumes "pd_price pd = Some v" and "pd_purchasePrice pd = Some c"
  shows "price (merge_patch p pd) = v \<and> purchasePrice (merge_patch p pd) = Some c"
  using assms by (simp add: merge_patch_def)

lemma profitMargin_recompute:
  "truthy_num (price p) \<Longrightarrow> truthy (purchasePrice p) \<Longrightarrow>
     profitMargin (recompute_margin p) = Some (round2 (margin (price p) (the (purchasePrice p))))"
  by (simp add: recompute_margin_def)


lemma updatedProduct_frame:
  "purchasePrice (updatedProduct u p q) = purchasePrice q \<and>
   profitMargin (updatedProduct u p q) = profitMargin q"
  by (simp add: updatedProduct_def Let_def)

lemma update_both_prices:
  assumes a: "update now i pd products = Inr (q, products')"
    and n: "pd_price pd = Some (Num v)" "pd_purchasePrice pd = Some (Num c)"
  shows "price q = Num v \<and> purchasePrice q = Some (Num c) \<and> c < v"
proof -
  from update_Inr [OF a] obtain index where
    q: "q = recompute_margin (merge_patch (track_price_change now (products ! index) pd) pd)"
    and g: "\<not> (case pd_price pd of None \<Rightarrow> False
              | Some v \<Rightarrow> (case pd_purchasePrice pd of None \<Rightarrow> False | Some c \<Rightarrow> js_le v c))"
    by blast
  from g n have "c < v"
    by simp
  with merge_both [OF n] show ?thesis
    unfolding q price_recompute purchasePrice_recompute by simp
qed

lemma update_margin:
  assumes a: "update now i pd products = Inr (q, products')"
    and t: "truthy_num (price q)" "truthy (purchasePrice q)"
  shows "profitMargin q = Some (round2 (margin (price q) (the (purchasePrice q))))"
proof -
  from update_Inr [OF a] obtain index where
    q: "q = recompute_margin (merge_patch (track_price_change now (products ! index) pd) pd)"
    by blast
  define m where "m = merge_patch (track_price_change now (products ! index) pd) pd"
  from t have "truthy_num (price m)" "truthy (purchasePrice m)"
    unfolding q m_def price_recompute purchasePrice_recompute by simp_all
  from profitMargin_recompute [OF this] show ?thesis
    unfolding q m_def price_recompute purchasePrice_recompute .
qed


text \<open>
  A price of the patch that is NaN passes the comparison of source line 102, every
  comparison with NaN being false: the patch is committed, and no margin is computed.
\<close>

lemma update_NaN_purchasePrice:
  "update 1700000000000 1 (example_patch\<lparr>pd_purchasePrice := Some NaN\<rparr>) [example_product] =
     Inr (example_product\<lparr>price := Num 120, purchasePrice := Some NaN,
            previousPrice := Some (Num 100),
            priceHistory := Some [\<lparr>date = 1700000000000, oldPrice = Num 100,
               newPrice = Num 120, user = ''Admin'', reason = ''Manual update''\<rparr>],
            lastUpdated := Some 1700000000000\<rparr>,
          [example_product\<lparr>price := Num 120, purchasePrice := Some NaN,
            previousPrice := Some (Num 100),
            priceHistory := Some [\<lparr>date = 1700000000000, oldPrice = Num 100,
               newPrice = Num 120, user = ''Admin'', reason = ''Manual update''\<rparr>],
            lastUpdated := Some 1700000000000\<rparr>])"
  by code_simp

text \<open>
  Claim C1, as the code has it. A committed single-record update whose patch carries both
  price and purchasePrice as numbers other than NaN leaves the record with these two
  values, the price above the purchase price. After every committed single-record update
  that leaves price and purchasePrice both truthy (neither zero nor NaN), profitMargin is
  Math.round(((price - purchasePrice) / purchasePrice) * 100 * 100) / 100, every operation
  in binary64 arithmetic. bulkUpdatePrices compares no price with the purchase price and
  recomputes no margin: every record keeps its purchasePrice and its profitMargin.
\<close>

theorem C1_margin_of_update_and_bulk:
  "(update now i pd products = Inr (q, products') \<longrightarrow>
      (pd_price pd = Some (Num v) \<and> pd_purchasePrice pd = Some (Num c) \<longrightarrow>
         price q = Num v \<and> purchasePrice q = Some (Num c) \<and> c < v) \<and>
      (truthy_num (price q) \<and> truthy (purchasePrice q) \<longrightarrow>
         profitMargin q =
           Some (js_div (Math_round (js_mul
             (js_mul (js_div (js_sub (price q) (the (purchasePrice q))) (the (purchasePrice q)))
                (Num 100))
             (Num 100))) (Num 100))))
   \<and> (bulkUpdatePrices u products = Inr (r, products'') \<longrightarrow>
        list_all2 (\<lambda>p p'. purchasePrice p' = purchasePrice p \<and> profitMargin p' = profitMargin p)
          products products'')"
proof -
  have "list_all2 (\<lambda>p p'. purchasePrice p' = purchasePrice p \<and> profitMargin p' = profitMargin p)
          products products''" if b: "bulkUpdatePrices u products = Inr (r, products'')"
    by (rule bulkUpdatePrices_rel [OF _ _ _ b]) (simp_all add: updatedProduct_frame)
  then show ?thesis
    using update_both_prices [of now i pd products q products' v c]
      update_margin [of now i pd products q products']
    by (auto simp: round2_def scaled_def margin_def)
qed

text \<open>
  The patch {price: 120, purchasePrice: 80} on the product priced 100 commits price 120,
  purchasePrice 80 and the margin 50; the bulk request that raises the price by 10 percent
  leaves purchasePrice and profitMargin as they were.
\<close>

theorem C1_margin_of_update_and_bulk_witness:
  "update 1700000000000 1 (example_patch\<lparr>pd_purchasePrice := Some (Num 80)\<rparr>) [example_product] =
     Inr (example_product\<lparr>price := Num 120, purchasePrice := Some (Num 80),
            previousPrice := Some (Num 100), profitMargin := Some (Num 50),
            priceHistory := Some [\<lparr>date = 1700000000000, oldPrice = Num 100,
               newPrice = Num 120, user = ''Admin'', reason = ''Manual update''\<rparr>],
            lastUpdated := Some 1700000000000\<rparr>,
          [example_product\<lparr>price := Num 120, purchasePrice := Some (Num 80),
            previousPrice := Some (Num 100), profitMargin := Some (Num 50),
            priceHistory := Some [\<lparr>date = 1700000000000, oldPrice = Num 100,
               newPrice = Num 120, user = ''Admin'', reason = ''Manual update''\<rparr>],
            lastUpdated := Some 1700000000000\<rparr>])
   \<and> (80::rat) < 120
   \<and> js_div (Math_round (js_mul
          (js_mul (js_div (js_sub (Num 120) (Num 80)) (Num 80)) (Num 100)) (Num 100))) (Num 100) =
       Num 50
   \<and> list_all2 (\<lambda>p p'. purchasePrice p' = purchasePrice p \<and> profitMargin p' = profitMargin p)
        [example_product] [example_product\<lparr>price := Num 110, previousPrice := Some (Num 100)\<rparr>]"
proof -
  have m: "js_div (Math_round (js_mul
          (js_mul (js_div (js_sub (Num 120) (Num 80)) (Num 80)) (Num 100)) (Num 100))) (Num 100) =
       Num 50"
    by code_simp
  have b: "bulkUpdatePrices pricing_request [example_product] =
     Inr (\<lparr>updatedCount = 1, totalFiltered = 1, conflictCount = 0, strategy = ''percentage'',
           conflictProducts = []\<rparr>,
          [example_product\<lparr>price := Num 110, previousPrice := Some (Num 100)\<rparr>])"
    by code_simp
  have u: "update 1700000000000 1 (example_patch\<lparr>pd_purchasePrice := Some (Num 80)\<rparr>)
      [example_product] =
     Inr (example_product\<lparr>price := Num 120, purchasePrice := Some (Num 80),
            previousPrice := Some (Num 100), profitMargin := Some (Num 50),
            priceHistory := Some [\<lparr>date = 1700000000000, oldPrice = Num 100,
               newPrice = Num 120, user = ''Admin'', reason = ''Manual update''\<rparr>],
            lastUpdated := Some 1700000000000\<rparr>,
          [example_product\<lparr>price := Num 120, purchasePrice := Some (Num 80),
            previousPrice := Some (Num 100), profitMargin := Some (Num 50),
            priceHistory := Some [\<lparr>date = 1700000000000, oldPrice = Num 100,
               newPrice = Num 120, user = ''Admin'', reason = ''Manual update''\<rparr>],
            lastUpdated := Some 1700000000000\<rparr>])"
    by code_simp
  have p: "pd_price (example_patch\<lparr>pd_purchasePrice := Some (Num 80)\<rparr>) = Some (Num 120) \<and>
      pd_purchasePrice (example_patch\<lparr>pd_purchasePrice := Some (Num 80)\<rparr>) = Some (Num 80)"
    by (simp add: example_patch_def)
  from C1_margin_of_update_and_bulk [THEN conjunct1, rule_format, OF u, THEN conjunct1,
      rule_format, OF p]
    C1_margin_of_update_and_bulk [THEN conjunct2, rule_format, OF b] u m
  show ?thesis
    by simp
qed

text \<open>
  Claim C1 as stated fails. The patch {price: 50} on a product with price 100 and
  purchasePrice 80 is committed with price 50, below the purchase price. The bulk request
  that adds -50 to the price commits the price 50 too and leaves the profitMargin of 25
  that the record had at the price 100.
\<close>

theorem C1_counterexample:
  "update 1700000000000 1 (example_patch\<lparr>pd_price := Some (Num 50)\<rparr>)
      [example_product\<lparr>purchasePrice := Some (Num 80)\<rparr>] =
     Inr (example_product\<lparr>price := Num 50, purchasePrice := Some (Num 80),
            previousPrice := Some (Num 100), profitMargin := Some (Num (- 75 / 2)),
            priceHistory := Some [\<lparr>date = 1700000000000, oldPrice = Num 100,
               newPrice = Num 50, user = ''Admin'', reason = ''Manual update''\<rparr>],
            lastUpdated := Some 1700000000000\<rparr>,
          [example_product\<lparr>price := Num 50, purchasePrice := Some (Num 80),
            previousPrice := Some (Num 100), profitMargin := Some (Num (- 75 / 2)),
            priceHistory := Some [\<lparr>date = 1700000000000, oldPrice = Num 100,
               newPrice = Num 50, user = ''Admin'', reason = ''Manual update''\<rparr>],
            lastUpdated := Some 1700000000000\<rparr>])
   \<and> bulkUpdatePrices
        (pricing_request\<lparr>ud_strategy := Some ''fixed'', ud_value := Some (Num (- 50))\<rparr>)
      [example_product\<lparr>purchasePrice := Some (Num 80), profitMargin := Some (Num 25)\<rparr>] =
     Inr (\<lparr>updatedCount = 1, totalFiltered = 1, conflictCount = 0, strategy = ''fixed'',
           conflictProducts = []\<rparr>,
          [example_product\<lparr>price := Num 50, purchasePrice := Some (Num 80),
             previousPrice := Some (Num 100), profitMargin := Some (Num 25)\<rparr>])"
  by code_simp




subsection \<open>getPriceHistory\<close>











subsection \<open>Rounding to 2 decimals\<close>

lemma frac_half_iff:
  fixes y :: rat
  shows "(frac y = 1 / 2) = (\<exists>m::int. y = of_int m + 1 / 2)"
proof
  assume "frac y = 1 / 2"
  then have "y = of_int \<lfloor>y\<rfloor> + 1 / 2"
    by (simp add: frac_def)
  then show "\<exists>m::int. y = of_int m + 1 / 2" ..
next
  assume "\<exists>m::int. y = of_int m + 1 / 2"
  then obtain m :: int where m: "y = of_int m + 1 / 2" ..
  then have "y - 1 / 2 = of_int m"
    by simp
  then have "y - 1 / 2 \<in> \<int>"
    by (metis Ints_of_int)
  with frac_unique_iff [of y "1 / 2"] show "frac y = 1 / 2"
    by simp
qed

text \<open>Math.round and rounding half away from zero differ exactly at the negative ties.\<close>

lemma floor_half_shift:
  fixes y :: rat
  shows "\<lfloor>y + 1 / 2\<rfloor> = - \<lfloor>- y + 1 / 2\<rfloor> + (if frac y = 1 / 2 then 1 else 0)"
proof (cases "frac y = 1 / 2")
  case True
  then obtain m :: int where y: "y = of_int m + 1 / 2"
    unfolding frac_half_iff ..
  have "y + 1 / 2 = of_int (m + 1)"
    by (simp add: y)
  then have a: "\<lfloor>y + 1 / 2\<rfloor> = m + 1"
    by (metis floor_of_int)
  have "- y + 1 / 2 = of_int (- m)"
    by (simp add: y)
  then have b: "\<lfloor>- y + 1 / 2\<rfloor> = - m"
    by (metis floor_of_int)
  from True a b show ?thesis
    by simp
next
  case False
  define n where "n = \<lfloor>y + 1 / 2\<rfloor>"
  have l: "of_int n \<le> y + 1 / 2" and u: "y + 1 / 2 < of_int n + 1"
    unfolding n_def by linarith+
  have ne: "of_int n \<noteq> y + 1 / 2"
  proof
    assume "of_int n = y + 1 / 2"
    then have "y = of_int (n - 1) + 1 / 2"
      by simp
    then have "frac y = 1 / 2"
      unfolding frac_half_iff ..
    with False show False
      by simp
  qed
  have "\<lfloor>- y + 1 / 2\<rfloor> = - n"
  proof (rule floor_unique)
    show "of_int (- n) \<le> - y + 1 / 2"
      using u by simp
    show "- y + 1 / 2 < of_int (- n) + 1"
      using l ne by simp
  qed
  with False show ?thesis
    by (simp add: n_def)
qed

lemma round_half_up_vs_away:
  "round_half_up s =
     (if s < 0 \<and> frac s = 1 / 2 then round_half_away s + 1 else round_half_away s)"
proof (cases "0 \<le> s")
  case True
  then show ?thesis
    by (simp add: round_half_up_def round_half_away_def)
next
  case False
  then have h: "round_half_away s = - \<lfloor>- s + 1 / 2\<rfloor>"
    by (simp add: round_half_away_def)
  show ?thesis
  proof (cases "frac s = 1 / 2")
    case True
    have "round_half_up s = - \<lfloor>- s + 1 / 2\<rfloor> + 1"
      unfolding round_half_up_def using floor_half_shift [of s] True by simp
    with h \<open>\<not> 0 \<le> s\<close> True show ?thesis
      by (simp only: if_True not_le simp_thms)
  next
    case nh: False
    have "round_half_up s = - \<lfloor>- s + 1 / 2\<rfloor>"
      unfolding round_half_up_def using floor_half_shift [of s] nh by simp
    with h nh show ?thesis
      by (simp only: if_False simp_thms)
  qed
qed

lemma round2_Num:
  "round2 (Num x) = Num (rnd (of_int (round_half_up (rnd (x * 100))) / 100))"
  by (simp add: round2_def scaled_def)

lemma toFixed2_half_away: "toFixed2 (Num x) = Some (round_half_away_from_zero x)"
  by (simp add: round_half_away_from_zero_def round_half_away_def)

text \<open>
  Values at which the binary64 product \<^verbatim>\<open>x * 100\<close> decides the hundredth: the margin of the
  price 183 on the purchase price 160 is 14.37 and that of 149 on 160 is -6.88, the
  minimum selling price of the purchase price 1.15 is 1.26, the final price of 5 with a
  discount of 0.5 percent is 4.97, and raising the price 1 by 2.5 percent commits 1.02.
  Raising the price 1 by 1 percent is a change of more than 0.01 in binary64.
\<close>

lemma binary64_roundings:
  "profitMargin_m (calculateProfitMetrics
      (example_product\<lparr>price := Num 183, purchasePrice := Some (Num 160)\<rparr>)) = lit (1437 / 100)"
  "profitMargin_m (calculateProfitMetrics
      (example_product\<lparr>price := Num 149, purchasePrice := Some (Num 160)\<rparr>)) = lit (- 688 / 100)"
  "minSellingPrice_m (calculateProfitMetrics
      (example_product\<lparr>purchasePrice := Some (lit (115 / 100))\<rparr>)) = lit (126 / 100)"
  "finalPrice_m (calculateProfitMetrics
      (example_product\<lparr>price := Num 5, discountType := Some ''Percentage'',
         discountValue := Some (lit (1 / 2))\<rparr>)) = lit (497 / 100)"
  "price (updatedProduct (pricing_request\<lparr>ud_value := Some (lit (25 / 10))\<rparr>)
      (example_product\<lparr>price := Num 1\<rparr>) (example_product\<lparr>price := Num 1\<rparr>)) = lit (102 / 100)"
  "commits (pricing_request\<lparr>ud_value := Some (Num 1)\<rparr>) (example_product\<lparr>price := Num 1\<rparr>)"
  by code_simp+

text \<open>
  Claim C8, as the code has it. Every 2-decimal rounding of the engine at the sites that
  the claim lists (profitMargin in update and in calculateProfitMetrics, finalPrice,
  minSellingPrice, the committed bulk prices) is Math.round(s) / 100 for the binary64
  product s = x * 100. Math.round takes s to the nearest integer and sends an exact half
  to the larger integer: it is the rounding of s half away from zero, except for a
  negative s that is an exact half, where it is the integer one above, towards zero.
  Whether s is an exact half depends on the binary64 value of x * 100, not on the decimal
  digits of x. The toFixed(2) of the low-margin message is another rule: it rounds the exact
  value of the number half away from zero.
\<close>

theorem C8_rounding_rule:
  "round2 (Num x) = Num (rnd (of_int (round_half_up (rnd (x * 100))) / 100))
   \<and> round_half_up s =
       (if s < 0 \<and> frac s = 1 / 2 then round_half_away s + 1 else round_half_away s)
   \<and> profitMargin_m (calculateProfitMetrics p) = round2 (profitMargin_raw p)
   \<and> finalPrice_m (calculateProfitMetrics p) = round2 (finalPrice_raw p)
   \<and> minSellingPrice_m (calculateProfitMetrics p) = round2 (minSellingPrice_raw p)
   \<and> price (updatedProduct u p q) = round2 (computed_price u p)
   \<and> (truthy_num (price p) \<and> truthy (purchasePrice p) \<longrightarrow>
        profitMargin (recompute_margin p) =
          Some (round2 (margin (price p) (the (purchasePrice p)))))
   \<and> toFixed2 (Num x) = Some (round_half_away_from_zero x)"
  using round2_Num [of x] round_half_up_vs_away [of s] profitMargin_recompute [of p]
    toFixed2_half_away [of x]
  by (simp add: calculateProfitMetrics_def updatedProduct_price)

text \<open>
  The margin -3.125 of the price 62 on the purchase price 64 has the scaled value -312.5,
  an exact half: Math.round gives -312, one above the -313 of rounding half away from
  zero, and the stored margin is -3.12. The margin of the price 149 on the purchase price
  160 is -6.875000000000001 in binary64: its scaled value is no exact half, and the
  stored margin is -6.88.
\<close>

theorem C8_rounding_rule_witness:
  "round_half_up (- 625 / 2) = round_half_away (- 625 / 2) + 1
   \<and> round_half_up (- 625 / 2) = - 312
   \<and> round2 (Num (- 3125 / 1000)) = lit (- 312 / 100)
   \<and> profitMargin
        (recompute_margin (example_product\<lparr>price := Num 62, purchasePrice := Some (Num 64)\<rparr>)) =
       Some (lit (- 312 / 100))
   \<and> profitMargin
        (recompute_margin (example_product\<lparr>price := Num 149, purchasePrice := Some (Num 160)\<rparr>)) =
       Some (lit (- 688 / 100))"
proof -
  have f: "frac (- 625 / 2 :: rat) = 1 / 2"
    unfolding frac_half_iff by (rule exI [of _ "- 313"]) simp
  have e: "round_half_away (- 625 / 2) = - 313"
    "round2 (Num (- 3125 / 1000)) = lit (- 312 / 100)"
    "round2 (margin (Num 62) (Num 64)) = lit (- 312 / 100)"
    "round2 (margin (Num 149) (Num 160)) = lit (- 688 / 100)"
    by code_simp+
  from C8_rounding_rule
    [of "- 3125 / 1000" "- 625 / 2"
      "example_product\<lparr>price := Num 62, purchasePrice := Some (Num 64)\<rparr>"]
    C8_rounding_rule
    [of "- 3125 / 1000" "- 625 / 2"
      "example_product\<lparr>price := Num 149, purchasePrice := Some (Num 160)\<rparr>"] f e
  show ?thesis
    by (simp add: example_product_def truthy_def)
qed

text \<open>
  Claim C8 as stated fails. The patch {price: 62} on a product with purchasePrice 64 gives
  the margin -3.125, whose scaled value -312.5 is an exact half: update stores the
  profitMargin -3.12 and calculateProfitMetrics returns -3.12, where rounding half away
  from zero gives -3.13. The margin -2.125 that the claim names is rounded to -2.12 as
  well.
\<close>

theorem C8_counterexample:
  "update 1700000000000 1 (example_patch\<lparr>pd_price := Some (Num 62)\<rparr>)
      [example_product\<lparr>purchasePrice := Some (Num 64)\<rparr>] =
     Inr (example_product\<lparr>price := Num 62, purchasePrice := Some (Num 64),
            previousPrice := Some (Num 100), profitMargin := Some (lit (- 312 / 100)),
            priceHistory := Some [\<lparr>date = 1700000000000, oldPrice = Num 100,
               newPrice = Num 62, user = ''Admin'', reason = ''Manual update''\<rparr>],
            lastUpdated := Some 1700000000000\<rparr>,
          [example_product\<lparr>price := Num 62, purchasePrice := Some (Num 64),
            previousPrice := Some (Num 100), profitMargin := Some (lit (- 312 / 100)),
            priceHistory := Some [\<lparr>date = 1700000000000, oldPrice = Num 100,
               newPrice = Num 62, user = ''Admin'', reason = ''Manual update''\<rparr>],
            lastUpdated := Some 1700000000000\<rparr>])
   \<and> profitMargin_raw (example_product\<lparr>price := Num 62, purchasePrice := Some (Num 64)\<rparr>) =
       Num (- 3125 / 1000)
   \<and> profitMargin_m
        (calculateProfitMetrics (example_product\<lparr>price := Num 62, purchasePrice := Some (Num 64)\<rparr>)) =
       lit (- 312 / 100)
   \<and> round_half_away_from_zero (- 3125 / 1000) = - 313 / 100
   \<and> lit (- 312 / 100) \<noteq> lit (- 313 / 100)
   \<and> round2 (Num (- 2125 / 1000)) = lit (- 212 / 100)
   \<and> round_half_away_from_zero (- 2125 / 1000) = - 213 / 100
   \<and> lit (- 212 / 100) \<noteq> lit (- 213 / 100)"
  by code_simp

subsection \<open>bulkPartialUpdate\<close>

lemma partial_step_cases:
  "partial_step now (ps, n, es) upd = (ps', n', es') \<Longrightarrow>
     (n' = Suc n \<and> es' = es) \<or>
     (n' = n \<and> ps' = ps \<and> (\<exists>e. es' = es @ [e] \<and> e_productId e = u_productId upd))"
  by (auto simp: partial_step_def Let_def split: if_splits sum.splits option.splits prod.splits)

text \<open>The counters that a turn starts from are only added to.\<close>

lemma partial_step_shift:
  "partial_step now (ps, n, es) upd =
     (case partial_step now (ps, 0, []) upd of (ps', a, bs) \<Rightarrow> (ps', n + a, es @ bs))"
  by (auto simp: partial_step_def Let_def split: if_splits sum.splits option.splits prod.splits)

lemma partial_loop_shift:
  "partial_loop clock k updates (ps, n, es) =
     map_sum (\<lambda>(ps', a, bs). (ps', n + a, es @ bs)) (\<lambda>(ps', a, bs). (ps', n + a, es @ bs))
       (partial_loop clock k updates (ps, 0, []))"
proof (induction updates arbitrary: k ps n es)
  case Nil
  then show ?case by simp
next
  case (Cons x updates)
  show ?case
  proof (cases x)
    case None
    then show ?thesis by simp
  next
    case (Some upd)
    obtain ps1 a bs where s: "partial_step (clock k) (ps, 0, []) upd = (ps1, a, bs)"
      by (cases "partial_step (clock k) (ps, 0, []) upd") auto
    then have s': "partial_step (clock k) (ps, n, es) upd = (ps1, n + a, es @ bs)"
      by (subst partial_step_shift) simp
    show ?thesis
      unfolding Some partial_loop.simps s s'
      by (subst Cons.IH [of _ ps1 "n + a" "es @ bs"], subst Cons.IH [of _ ps1 a bs])
        (cases "partial_loop clock (Suc k) updates (ps1, 0, [])"; auto)
  qed
qed

lemma partial_loop_clock:
  "partial_loop (\<lambda>j. clock (Suc j)) k updates st = partial_loop clock (Suc k) updates st"
proof (induction updates arbitrary: k st)
  case Nil
  then show ?case by simp
next
  case (Cons x updates)
  then show ?case by (cases x) simp_all
qed

lemma partial_loop_count:
  "partial_loop clock k updates (ps, n, es) = Inr (ps', n', es') \<Longrightarrow>
     n' + length es' = n + length es + length updates"
proof (induction updates arbitrary: k ps n es)
  case Nil
  then show ?case by simp
next
  case (Cons x updates)
  from Cons.prems obtain upd where x: "x = Some upd"
    by (cases x) auto
  obtain ps1 n1 es1 where s: "partial_step (clock k) (ps, n, es) upd = (ps1, n1, es1)"
    by (cases "partial_step (clock k) (ps, n, es) upd") auto
  from partial_step_cases [OF s] have "n1 + length es1 = Suc (n + length es)"
    by auto
  moreover from Cons.prems x s
  have "partial_loop clock (Suc k) updates (ps1, n1, es1) = Inr (ps', n', es')"
    by simp
  from Cons.IH [OF this] have "n' + length es' = n1 + length es1 + length updates" .
  ultimately show ?case by simp
qed

text \<open>The loop runs to its end exactly when no element of the list is null or undefined.\<close>

lemma partial_loop_Inr_iff:
  "(\<exists>st'. partial_loop clock k updates st = Inr st') = (None \<notin> set updates)"
proof (induction updates arbitrary: k st)
  case Nil
  then show ?case by (cases st) simp
next
  case (Cons x updates)
  then show ?case by (cases x) auto
qed

text \<open>
  After a run of entries that are objects, an entry that fails adds its error and the loop
  goes on with the entries behind it, on the catalog as the run left it.
\<close>

lemma partial_loop_append:
  "partial_loop clock k xs st = Inr st1 \<Longrightarrow>
     partial_loop clock k (xs @ ys) st = partial_loop clock (k + length xs) ys st1"
proof (induction xs arbitrary: k st)
  case Nil
  then show ?case by simp
next
  case (Cons x xs)
  from Cons.prems obtain upd where x: "x = Some upd"
    by (cases x) auto
  with Cons.prems have "partial_loop clock (Suc k) xs (partial_step (clock k) st upd) = Inr st1"
    by simp
  from Cons.IH [OF this] show ?case
    by (simp add: x)
qed

lemma entry_fails_step:
  assumes "entry_fails now ps upd"
  shows "partial_step now (ps, n, es) upd = (ps, n, es @ [entry_error now ps upd])"
proof -
  obtain ps1 a bs where s: "partial_step now (ps, 0, []) upd = (ps1, a, bs)"
    by (cases "partial_step now (ps, 0, []) upd") auto
  with assms have a: "a = 0"
    by (simp add: entry_fails_def)
  with partial_step_cases [OF s] obtain e where "ps1 = ps" "bs = [e]"
    by auto
  with s a show ?thesis
    by (subst partial_step_shift) (simp add: entry_error_def)
qed

lemma failing_entry_continues:
  assumes "partial_loop clock k xs st = Inr (ps1, n1, es1)"
    and "entry_fails (clock (k + length xs)) ps1 upd"
  shows "partial_loop clock k (xs @ Some upd # rest) st =
     partial_loop clock (Suc (k + length xs)) rest
       (ps1, n1, es1 @ [entry_error (clock (k + length xs)) ps1 upd])"
  using partial_loop_append [OF assms(1), of "Some upd # rest"] entry_fails_step [OF assms(2)]
  by simp

lemma failing_first_entry:
  assumes "entry_fails (clock 0) products upd"
  shows "bulkPartialUpdate clock (Some upd # rest) products =
     with_error (entry_error (clock 0) products upd)
       (bulkPartialUpdate (\<lambda>k. clock (Suc k)) rest products)"
proof -
  define e where "e = entry_error (clock 0) products upd"
  have "partial_loop clock 0 (Some upd # rest) (products, 0, []) =
      partial_loop clock (Suc 0) rest (products, 0, [e])"
    using entry_fails_step [OF assms, of 0 "[]"] by (simp add: e_def)
  also have "\<dots> = map_sum (\<lambda>(ps', a, bs). (ps', a, e # bs)) (\<lambda>(ps', a, bs). (ps', a, e # bs))
       (partial_loop (\<lambda>k. clock (Suc k)) 0 rest (products, 0, []))"
    by (subst partial_loop_shift) (simp add: partial_loop_clock)
  finally show ?thesis
    unfolding bulkPartialUpdate_def with_error_def e_def [symmetric]
    by (cases "partial_loop (\<lambda>k. clock (Suc k)) 0 rest (products, 0, [])") auto
qed

lemma bulkPartialUpdate_returns:
  "(\<exists>r. fst (bulkPartialUpdate clock updates products) = Inr r) = (None \<notin> set updates)"
proof -
  have "(\<exists>r. fst (bulkPartialUpdate clock updates products) = Inr r) =
      (\<exists>st'. partial_loop clock 0 updates (products, 0, []) = Inr st')"
    by (cases "partial_loop clock 0 updates (products, 0, [])")
      (auto simp: bulkPartialUpdate_def)
  then show ?thesis
    by (simp only: partial_loop_Inr_iff)
qed

lemma bulkPartialUpdate_counts:
  assumes "fst (bulkPartialUpdate clock updates products) = Inr r"
  shows "successCount r + length (errors r) = totalUpdates r \<and> totalUpdates r = length updates"
proof -
  from assms obtain ps' n' es' where
    l: "partial_loop clock 0 updates (products, 0, []) = Inr (ps', n', es')"
    and r: "r = \<lparr>successCount = n', totalUpdates = length updates, errors = es'\<rparr>"
    by (cases "partial_loop clock 0 updates (products, 0, [])")
      (auto simp: bulkPartialUpdate_def)
  from partial_loop_count [OF l] show ?thesis
    by (simp add: r)
qed

text \<open>
  Claim C9, as the code has it. For every input list whose elements are all objects,
  bulkPartialUpdate returns its summary, each entry adds one to successCount or one error
  to the errors list, never both, and successCount plus the number of errors is
  totalUpdates, which is the length of the input list. An entry that fails, by a
  validation or by an exception of update, leaves the catalog as it was and the loop goes
  on with the entries behind it. The summary is returned only for such lists: an element
  that is null or undefined ends the call with a TypeError.
\<close>

theorem C9_bulkPartialUpdate_counts:
  "(\<exists>r. fst (bulkPartialUpdate clock updates products) = Inr r) = (None \<notin> set updates)
   \<and> (fst (bulkPartialUpdate clock updates products) = Inr r \<longrightarrow>
        successCount r + length (errors r) = totalUpdates r \<and> totalUpdates r = length updates)
   \<and> (case partial_step now (ps, n, es) upd of (ps', n', es') \<Rightarrow>
        (n' = Suc n \<and> es' = es) \<or>
        (n' = n \<and> ps' = ps \<and> length es' = Suc (length es) \<and> butlast es' = es \<and>
           e_productId (last es') = u_productId upd))
   \<and> (partial_loop clock k xs st = Inr (ps1, n1, es1) \<and>
      entry_fails (clock (k + length xs)) ps1 upd \<longrightarrow>
        partial_loop clock k (xs @ Some upd # rest) st =
          partial_loop clock (Suc (k + length xs)) rest
            (ps1, n1, es1 @ [entry_error (clock (k + length xs)) ps1 upd]))
   \<and> (entry_fails (clock 0) products upd \<longrightarrow>
        bulkPartialUpdate clock (Some upd # rest) products =
          with_error (entry_error (clock 0) products upd)
            (bulkPartialUpdate (\<lambda>k. clock (Suc k)) rest products))"
proof -
  obtain ps' n' es' where s: "partial_step now (ps, n, es) upd = (ps', n', es')"
    by (cases "partial_step now (ps, n, es) upd") auto
  from partial_step_cases [OF s]
  have c: "(n' = Suc n \<and> es' = es) \<or>
        (n' = n \<and> ps' = ps \<and> length es' = Suc (length es) \<and> butlast es' = es \<and>
           e_productId (last es') = u_productId upd)"
    by auto
  from c s bulkPartialUpdate_returns [of clock updates products]
    bulkPartialUpdate_counts [of clock updates products r]
    failing_entry_continues [of clock k xs st ps1 n1 es1 upd rest]
    failing_first_entry [of clock products upd rest]
  show ?thesis
    by simp
qed

text \<open>
  The entry with basePrice -5 is refused with its error and the entry after it, with
  basePrice 120, is applied.
\<close>

theorem C9_bulkPartialUpdate_counts_witness:
  "bulkPartialUpdate (\<lambda>k. 1700000000000 + int k)
      [Some \<lparr>u_productId = Some 1, basePrice = Some (Num (- 5)), costPrice = None\<rparr>,
       Some \<lparr>u_productId = Some 1, basePrice = Some (Num 120), costPrice = None\<rparr>] [example_product] =
     (Inr \<lparr>successCount = 1, totalUpdates = 2,
       errors = [\<lparr>e_productId = Some 1, e_error = ''Base price must be greater than 0''\<rparr>]\<rparr>,
      [example_product\<lparr>price := Num 120, previousPrice := Some (Num 100),
            priceHistory := Some [\<lparr>date = 1700000000001, oldPrice = Num 100,
               newPrice = Num 120, user = ''Admin'', reason = ''Manual update''\<rparr>],
            lastUpdated := Some 1700000000001\<rparr>])
   \<and> entry_fails 1700000000000 [example_product]
        \<lparr>u_productId = Some 1, basePrice = Some (Num (- 5)), costPrice = None\<rparr>
   \<and> (1::nat) + length [\<lparr>e_productId = Some 1, e_error = ''Base price must be greater than 0''\<rparr>] = 2"
proof -
  have h: "bulkPartialUpdate (\<lambda>k. 1700000000000 + int k)
      [Some \<lparr>u_productId = Some 1, basePrice = Some (Num (- 5)), costPrice = None\<rparr>,
       Some \<lparr>u_productId = Some 1, basePrice = Some (Num 120), costPrice = None\<rparr>] [example_product] =
     (Inr \<lparr>successCount = 1, totalUpdates = 2,
       errors = [\<lparr>e_productId = Some 1, e_error = ''Base price must be greater than 0''\<rparr>]\<rparr>,
      [example_product\<lparr>price := Num 120, previousPrice := Some (Num 100),
            priceHistory := Some [\<lparr>date = 1700000000001, oldPrice = Num 100,
               newPrice = Num 120, user = ''Admin'', reason = ''Manual update''\<rparr>],
            lastUpdated := Some 1700000000001\<rparr>])"
    by (simp add: bulkPartialUpdate_def partial_step_def update_entry_def update_def
        track_price_change_def
        price_differs_def merge_patch_def recompute_margin_def Let_def truthy_def
        example_product_def)
  have f: "entry_fails 1700000000000 [example_product]
        \<lparr>u_productId = Some 1, basePrice = Some (Num (- 5)), costPrice = None\<rparr>"
    by (simp add: entry_fails_def partial_step_def)
  from h have r: "fst (bulkPartialUpdate (\<lambda>k. 1700000000000 + int k)
      [Some \<lparr>u_productId = Some 1, basePrice = Some (Num (- 5)), costPrice = None\<rparr>,
       Some \<lparr>u_productId = Some 1, basePrice = Some (Num 120), costPrice = None\<rparr>] [example_product]) =
     Inr \<lparr>successCount = 1, totalUpdates = 2,
       errors = [\<lparr>e_productId = Some 1, e_error = ''Base price must be greater than 0''\<rparr>]\<rparr>"
    by simp
  from C9_bulkPartialUpdate_counts [THEN conjunct2, THEN conjunct1, rule_format, OF r] h f
  show ?thesis
    by simp
qed

text \<open>
  Claim C9 as stated fails. In the list of an entry with basePrice 120, a null and an entry
  with basePrice 130, the null ends the call with a TypeError: no summary is returned, and
  the third entry is not processed, the price staying at the 120 of the first.
\<close>

theorem C9_counterexample:
  "bulkPartialUpdate (\<lambda>k. 1700000000000 + int k)
      [Some \<lparr>u_productId = Some 1, basePrice = Some (Num 120), costPrice = None\<rparr>,
       None,
       Some \<lparr>u_productId = Some 1, basePrice = Some (Num 130), costPrice = None\<rparr>] [example_product] =
     (Inl ''TypeError'',
      [example_product\<lparr>price := Num 120, previousPrice := Some (Num 100),
            priceHistory := Some [\<lparr>date = 1700000000000, oldPrice = Num 100,
               newPrice = Num 120, user = ''Admin'', reason = ''Manual update''\<rparr>],
            lastUpdated := Some 1700000000000\<rparr>])"
  by (simp add: bulkPartialUpdate_def partial_step_def update_entry_def update_def
      track_price_change_def
      price_differs_def merge_patch_def recompute_margin_def Let_def truthy_def
      example_product_def)

end
